theory Spec2Isabelle
  imports Complex_Main
begin

section \<open>The selector database\<close>

text \<open>
  The model follows \<^verbatim>\<open>src/index.js\<close>. A JavaScript string is modelled by the list of
  its UTF-16 code units, each a \<^typ>\<open>char\<close>: \<open>length\<close>, \<open>take\<close> and \<open>drop\<close> count
  code units as \<^verbatim>\<open>length\<close> and \<^verbatim>\<open>slice\<close> do. Text with a code unit above 255 has
  no counterpart in the model. A value that may be \<^verbatim>\<open>undefined\<close> or \<^verbatim>\<open>null\<close> is a
  \<^typ>\<open>'a option\<close>. Match types, verdicts and error codes stay the strings they are in
  the source. Numbers written as decimal literals in the registry (the confidences) are
  rationals.
\<close>

record injective_mapping =
  msgType :: "string option"
  steps :: "string list option"
  confidence :: rat
  matchType :: string
  mapping_notes :: "string option"

record func_info =
  name :: string
  signature :: string
  paramTypes :: "string list"
  paramNames :: "string list"
  category :: string
  injectiveMapping :: injective_mapping

definition SELECTOR_DB_entries :: "(string \<times> func_info) list" where
  "SELECTOR_DB_entries =
    [(''0xa9059cbb'',
      \<lparr>name = ''transfer'', signature = ''transfer(address,uint256)'',
       paramTypes = [''address'', ''uint256''], paramNames = [''to'', ''amount''],
       category = ''token'',
       injectiveMapping = \<lparr>msgType = Some ''/cosmos.bank.v1beta1.MsgSend'', steps = None,
         confidence = 98 / 100, matchType = ''DIRECT'', mapping_notes = None\<rparr>\<rparr>),
     (''0x095ea7b3'',
      \<lparr>name = ''approve'', signature = ''approve(address,uint256)'',
       paramTypes = [''address'', ''uint256''], paramNames = [''spender'', ''amount''],
       category = ''token'',
       injectiveMapping = \<lparr>msgType = Some ''/cosmos.authz.v1beta1.MsgGrant'', steps = None,
         confidence = 85 / 100, matchType = ''SEMANTIC'',
         mapping_notes = Some ''Injective uses authz module instead of per-token approvals''\<rparr>\<rparr>),
     (''0x23b872dd'',
      \<lparr>name = ''transferFrom'', signature = ''transferFrom(address,address,uint256)'',
       paramTypes = [''address'', ''address'', ''uint256''],
       paramNames = [''from'', ''to'', ''amount''],
       category = ''token'',
       injectiveMapping = \<lparr>msgType = Some ''/cosmos.bank.v1beta1.MsgSend'', steps = None,
         confidence = 80 / 100, matchType = ''SEMANTIC'',
         mapping_notes = Some ''Requires authz grant check''\<rparr>\<rparr>),
     (''0x38ed1739'',
      \<lparr>name = ''swapExactTokensForTokens'',
       signature = ''swapExactTokensForTokens(uint256,uint256,address[],address,uint256)'',
       paramTypes = [''uint256'', ''uint256'', ''address[]'', ''address'', ''uint256''],
       paramNames = [''amountIn'', ''amountOutMin'', ''path'', ''to'', ''deadline''],
       category = ''swap'',
       injectiveMapping =
         \<lparr>msgType = Some ''/injective.exchange.v1beta1.MsgCreateSpotMarketOrder'', steps = None,
          confidence = 90 / 100, matchType = ''SEMANTIC'',
          mapping_notes = Some ''AMM swap converts to orderbook market order''\<rparr>\<rparr>),
     (''0x7ff36ab5'',
      \<lparr>name = ''swapExactETHForTokens'',
       signature = ''swapExactETHForTokens(uint256,address[],address,uint256)'',
       paramTypes = [''uint256'', ''address[]'', ''address'', ''uint256''],
       paramNames = [''amountOutMin'', ''path'', ''to'', ''deadline''],
       category = ''swap'',
       injectiveMapping =
         \<lparr>msgType = Some ''COMPOSITE'',
          steps = Some [''/injective.exchange.v1beta1.MsgDeposit'',
                        ''/injective.exchange.v1beta1.MsgCreateSpotMarketOrder''],
          confidence = 85 / 100, matchType = ''COMPOSITE'',
          mapping_notes = Some ''Requires deposit to subaccount first''\<rparr>\<rparr>),
     (''0xe8e33700'',
      \<lparr>name = ''addLiquidity'',
       signature =
         ''addLiquidity(address,address,uint256,uint256,uint256,uint256,address,uint256)'',
       paramTypes = [''address'', ''address'', ''uint256'', ''uint256'', ''uint256'', ''uint256'',
                     ''address'', ''uint256''],
       paramNames = [''tokenA'', ''tokenB'', ''amountADesired'', ''amountBDesired'',
                     ''amountAMin'', ''amountBMin'', ''to'', ''deadline''],
       category = ''liquidity'',
       injectiveMapping = \<lparr>msgType = None, steps = None, confidence = 0,
         matchType = ''UNSUPPORTED'',
         mapping_notes = Some ''Injective uses orderbook, not AMM. Consider market making.''\<rparr>\<rparr>),
     (''0xa694fc3a'',
      \<lparr>name = ''stake'', signature = ''stake(uint256)'',
       paramTypes = [''uint256''], paramNames = [''amount''],
       category = ''staking'',
       injectiveMapping = \<lparr>msgType = Some ''/cosmos.staking.v1beta1.MsgDelegate'', steps = None,
         confidence = 95 / 100, matchType = ''DIRECT'', mapping_notes = None\<rparr>\<rparr>),
     (''0x2e1a7d4d'',
      \<lparr>name = ''withdraw'', signature = ''withdraw(uint256)'',
       paramTypes = [''uint256''], paramNames = [''amount''],
       category = ''staking'',
       injectiveMapping = \<lparr>msgType = Some ''/cosmos.staking.v1beta1.MsgUndelegate'',
         steps = None, confidence = 95 / 100, matchType = ''DIRECT'', mapping_notes = None\<rparr>\<rparr>),
     (''0x3d18b912'',
      \<lparr>name = ''getReward'', signature = ''getReward()'',
       paramTypes = [], paramNames = [],
       category = ''staking'',
       injectiveMapping =
         \<lparr>msgType = Some ''/cosmos.distribution.v1beta1.MsgWithdrawDelegatorReward'',
          steps = None, confidence = 95 / 100, matchType = ''DIRECT'', mapping_notes = None\<rparr>\<rparr>),
     (''0xab9c4b5d'',
      \<lparr>name = ''flashLoan'',
       signature = ''flashLoan(address,address[],uint256[],uint256[],address,bytes,uint16)'',
       paramTypes = [''address'', ''address[]'', ''uint256[]'', ''uint256[]'', ''address'',
                     ''bytes'', ''uint16''],
       paramNames = [''receiverAddress'', ''assets'', ''amounts'', ''modes'', ''onBehalfOf'',
                     ''params'', ''referralCode''],
       category = ''flash'',
       injectiveMapping = \<lparr>msgType = None, steps = None, confidence = 0,
         matchType = ''UNSUPPORTED'',
         mapping_notes = Some ''Flash loans not supported on Injective''\<rparr>\<rparr>)]"

text \<open>
  \<^verbatim>\<open>SELECTOR_DB[key]\<close>: the property lookup. Every key the program looks up is either
  a 10-character string that starts with \<^verbatim>\<open>0x\<close> or a value of \<^verbatim>\<open>intentMap\<close>, so no
  property inherited from \<^verbatim>\<open>Object.prototype\<close> is ever found by it.
\<close>

definition SELECTOR_DB :: "string \<Rightarrow> func_info option" where
  "SELECTOR_DB = map_of SELECTOR_DB_entries"

definition MARKET_MAP :: "string \<Rightarrow> string option" where
  "MARKET_MAP = map_of
    [(''INJ-USDT'', ''0x0611780ba69656949525013d947713300f56c37b6175e02f26bffa495c3208fe''),
     (''WETH-USDT'', ''0xd1956e20d74eeb1febe31cd37060781ff1cb266f49e0512b446a5fafa9a16034'')]"

section \<open>JavaScript values and strings\<close>

text \<open>
  A string or \<^verbatim>\<open>undefined\<close>. \<open>truthy\<close> is JavaScript's truthiness on such a value
  (the empty string is falsy), \<open>or_else\<close> is \<^verbatim>\<open>a || b\<close> and \<open>show_js\<close> is the
  rendering inside a template literal.
\<close>

type_synonym js_string = "string option"

definition truthy :: "js_string \<Rightarrow> bool" where
  "truthy v = (case v of None \<Rightarrow> False | Some s \<Rightarrow> s \<noteq> [])"

definition or_else :: "js_string \<Rightarrow> js_string \<Rightarrow> js_string" where
  "or_else a b = (if truthy a then a else b)"

definition show_js :: "js_string \<Rightarrow> string" where
  "show_js v = (case v of None \<Rightarrow> ''undefined'' | Some s \<Rightarrow> s)"

text \<open>\<^verbatim>\<open>s.startsWith(p)\<close>.\<close>

fun startsWith :: "string \<Rightarrow> string \<Rightarrow> bool" where
  "startsWith s [] = True"
| "startsWith [] (p # ps) = False"
| "startsWith (c # cs) (p # ps) = (c = p \<and> startsWith cs ps)"

text \<open>\<^verbatim>\<open>s.includes(p)\<close>: \<open>p\<close> occurs in \<open>s\<close> as a contiguous substring.\<close>

fun includes_str :: "string \<Rightarrow> string \<Rightarrow> bool" where
  "includes_str [] p = (p = [])"
| "includes_str (c # cs) p = (startsWith (c # cs) p \<or> includes_str cs p)"

text \<open>
  \<^verbatim>\<open>s.toLowerCase()\<close>. Among the code units up to 255 the upper-case letters are
  \<open>A\<close> to \<open>Z\<close> (65 to 90) and the accented capitals 192 to 222 except the
  multiplication sign 215; the lower-case letter of each is 32 higher, which sets the
  bit of value 32.
\<close>

fun set_bit5 :: "char \<Rightarrow> char" where
  "set_bit5 (Char b0 b1 b2 b3 b4 b5 b6 b7) = Char b0 b1 b2 b3 b4 True b6 b7"

definition lower_char :: "char \<Rightarrow> char" where
  "lower_char c =
     (let n = of_char c :: nat in
      if (65 \<le> n \<and> n \<le> 90) \<or> (192 \<le> n \<and> n \<le> 222 \<and> n \<noteq> 215) then set_bit5 c else c)"

definition toLowerCase :: "string \<Rightarrow> string" where
  "toLowerCase s = map lower_char s"

text \<open>\<^verbatim>\<open>s.replace(p, '')\<close> with a string pattern: the first occurrence is removed.\<close>

fun remove_first :: "string \<Rightarrow> string \<Rightarrow> string" where
  "remove_first p [] = []"
| "remove_first p (c # cs) =
     (if startsWith (c # cs) p then drop (length p) (c # cs) else c # remove_first p cs)"

definition padStart :: "nat \<Rightarrow> char \<Rightarrow> string \<Rightarrow> string" where
  "padStart n c s = replicate (n - length s) c @ s"

definition getSubaccountId :: "string \<Rightarrow> string" where
  "getSubaccountId address =
     ''0x'' @ padStart 40 CHR ''0'' (remove_first ''inj'' address) @ replicate 24 CHR ''0''"

text \<open>\<^verbatim>\<open>a || 'literal'\<close>, which is always a string.\<close>

definition or_default :: "js_string \<Rightarrow> string \<Rightarrow> string" where
  "or_default a d = (case a of None \<Rightarrow> d | Some s \<Rightarrow> if s = [] then d else s)"

section \<open>The clock\<close>

text \<open>
  \<^verbatim>\<open>Builders.MsgGrant\<close> reads \<^verbatim>\<open>Date.now()\<close>. The reading is an explicit argument
  \<open>now\<close>, in milliseconds since the epoch. \<open>toISOString\<close> is
  \<^verbatim>\<open>new Date(t).toISOString()\<close>: a time value beyond \<open>8.64e15\<close> in magnitude is an
  invalid date, for which JavaScript throws a \<^verbatim>\<open>RangeError\<close>; years outside
  \<open>0..9999\<close> are written with a sign and six digits.
\<close>

definition digit_char :: "nat \<Rightarrow> char" where
  "digit_char d = ''0123456789'' ! (d mod 10)"

text \<open>The last \<open>k\<close> decimal digits of \<open>n\<close>, padded with zeros.\<close>

fun pad_num :: "nat \<Rightarrow> nat \<Rightarrow> string" where
  "pad_num 0 n = []"
| "pad_num (Suc k) n = pad_num k (n div 10) @ [digit_char n]"

definition civil_from_days :: "int \<Rightarrow> int \<times> int \<times> int" where
  "civil_from_days z =
     (let z' = z + 719468;
          era = z' div 146097;
          doe = z' mod 146097;
          yoe = (doe - doe div 1460 + doe div 36524 - doe div 146096) div 365;
          y = yoe + era * 400;
          doy = doe - (365 * yoe + yoe div 4 - yoe div 100);
          mp = (5 * doy + 2) div 153;
          d = doy - (153 * mp + 2) div 5 + 1;
          m = (if mp < 10 then mp + 3 else mp - 9)
      in (if m \<le> 2 then y + 1 else y, m, d))"

definition year_string :: "int \<Rightarrow> string" where
  "year_string y =
     (if 0 \<le> y \<and> y \<le> 9999 then pad_num 4 (nat y)
      else (if y < 0 then ''-'' else ''+'') @ pad_num 6 (nat \<bar>y\<bar>))"

text \<open>The date \<open>(y, m, d)\<close> and the milliseconds \<open>r\<close> since midnight.\<close>

fun iso_string :: "int \<times> int \<times> int \<Rightarrow> nat \<Rightarrow> string" where
  "iso_string (y, m, d) r =
     year_string y @ ''-'' @ pad_num 2 (nat m) @ ''-'' @ pad_num 2 (nat d) @ ''T'' @
     pad_num 2 (r div 3600000) @ '':'' @ pad_num 2 (r div 60000 mod 60) @ '':'' @
     pad_num 2 (r div 1000 mod 60) @ ''.'' @ pad_num 3 (r mod 1000) @ ''Z''"

definition toISOString :: "int \<Rightarrow> string + string" where
  "toISOString t =
     (if \<bar>t\<bar> > 8640000000000000 then Inl ''Invalid time value''
      else Inr (iso_string (civil_from_days (t div 86400000)) (nat (t mod 86400000))))"

section \<open>Message builders\<close>

record coin =
  denom :: string
  amount :: js_string

text \<open>
  One constructor for each entry of \<^verbatim>\<open>Builders\<close>, carrying the fields of the object it
  returns in their order (\<^verbatim>\<open>MsgSpotOrder\<close>: sender, market id, subaccount id, fee
  recipient, price, quantity, order type, trigger price).
\<close>

datatype message =
    MsgSend js_string js_string "coin list"
  | MsgDelegate js_string string coin
  | MsgUndelegate js_string string coin
  | MsgWithdrawReward js_string string
  | MsgGrant js_string js_string "coin list" string
  | MsgSpotOrder string js_string string string string js_string nat string
  | MsgDeposit string string coin

fun at_type :: "message \<Rightarrow> string" where
  "at_type (MsgSend _ _ _) = ''/cosmos.bank.v1beta1.MsgSend''"
| "at_type (MsgDelegate _ _ _) = ''/cosmos.staking.v1beta1.MsgDelegate''"
| "at_type (MsgUndelegate _ _ _) = ''/cosmos.staking.v1beta1.MsgUndelegate''"
| "at_type (MsgWithdrawReward _ _) = ''/cosmos.distribution.v1beta1.MsgWithdrawDelegatorReward''"
| "at_type (MsgGrant _ _ _ _) = ''/cosmos.authz.v1beta1.MsgGrant''"
| "at_type (MsgSpotOrder _ _ _ _ _ _ _ _) = ''/injective.exchange.v1beta1.MsgCreateSpotMarketOrder''"
| "at_type (MsgDeposit _ _ _) = ''/injective.exchange.v1beta1.MsgDeposit''"

text \<open>A parameter default \<^verbatim>\<open>denom = 'inj'\<close> applies when the argument is \<^verbatim>\<open>undefined\<close>.\<close>

definition default_denom :: "js_string \<Rightarrow> string" where
  "default_denom d = (case d of None \<Rightarrow> ''inj'' | Some s \<Rightarrow> s)"

definition build_MsgSend :: "js_string \<Rightarrow> js_string \<Rightarrow> js_string \<Rightarrow> js_string \<Rightarrow> message" where
  "build_MsgSend from to amt dnm = MsgSend from to [\<lparr>denom = default_denom dnm, amount = amt\<rparr>]"

definition build_MsgDelegate :: "js_string \<Rightarrow> js_string \<Rightarrow> js_string \<Rightarrow> message" where
  "build_MsgDelegate delegator validator amt =
     MsgDelegate delegator (or_default validator ''injvaloper1xxx'') \<lparr>denom = ''inj'', amount = amt\<rparr>"

definition build_MsgUndelegate :: "js_string \<Rightarrow> js_string \<Rightarrow> js_string \<Rightarrow> message" where
  "build_MsgUndelegate delegator validator amt =
     MsgUndelegate delegator (or_default validator ''injvaloper1xxx'') \<lparr>denom = ''inj'', amount = amt\<rparr>"

definition build_MsgWithdrawReward :: "js_string \<Rightarrow> js_string \<Rightarrow> message" where
  "build_MsgWithdrawReward delegator validator =
     MsgWithdrawReward delegator (or_default validator ''injvaloper1xxx'')"

text \<open>The only builder that reads the clock; it throws when the date is invalid.\<close>

definition build_MsgGrant ::
  "int \<Rightarrow> js_string \<Rightarrow> js_string \<Rightarrow> js_string \<Rightarrow> js_string \<Rightarrow> string + message" where
  "build_MsgGrant now granter grantee amt dnm =
     (case toISOString (now + 365 * 24 * 60 * 60 * 1000) of
        Inl e \<Rightarrow> Inl e
      | Inr expiration \<Rightarrow>
          Inr (MsgGrant granter grantee [\<lparr>denom = default_denom dnm, amount = amt\<rparr>] expiration))"

definition build_MsgSpotOrder :: "string \<Rightarrow> js_string \<Rightarrow> js_string \<Rightarrow> nat \<Rightarrow> message" where
  "build_MsgSpotOrder sender marketId quantity orderType =
     MsgSpotOrder sender marketId (getSubaccountId sender) sender ''0'' quantity orderType ''0''"

definition build_MsgDeposit :: "string \<Rightarrow> js_string \<Rightarrow> message" where
  "build_MsgDeposit sender amt =
     MsgDeposit sender (getSubaccountId sender) \<lparr>denom = ''inj'', amount = amt\<rparr>"

section \<open>Translation engine\<close>

record param =
  p_name :: string
  p_type :: js_string
  p_value :: string

text \<open>
  The object \<^verbatim>\<open>decodeCalldata\<close> and the intent branch build; a field that an
  object literal leaves out is \<open>None\<close>.
\<close>

record decoded_call =
  selector :: string
  functionName :: js_string
  d_signature :: js_string
  d_category :: js_string
  parameters :: "param list option"
  decoded :: bool
  error :: js_string

text \<open>The context of a request; each of its fields is a string or missing.\<close>

record translation_context =
  senderAddress :: js_string
  recipientAddress :: js_string
  spenderAddress :: js_string
  ctx_denom :: js_string
  validator :: js_string
  ethValue :: js_string

record metadata =
  meta_confidence :: rat
  meta_matchType :: string
  warnings :: "string list"
  originalFunction :: string

text \<open>
  \<open>Failure code message\<close> is \<^verbatim>\<open>{success: false, error: {code, message}}\<close>;
  \<open>Success messages explanation metadata\<close> is the successful result.
\<close>

datatype translate_result =
    Failure string js_string
  | Success "message list" string metadata

text \<open>
  \<^verbatim>\<open>decoded.parameters?.forEach(p => params[p.name] = p.value)\<close>: a later parameter of
  the same name overwrites an earlier one.
\<close>

definition params_of :: "param list option \<Rightarrow> (string \<rightharpoonup> string)" where
  "params_of ps =
     (case ps of None \<Rightarrow> Map.empty
      | Some l \<Rightarrow> foldl (\<lambda>m p. m(p_name p \<mapsto> p_value p)) Map.empty l)"

definition translate ::
  "int \<Rightarrow> decoded_call \<Rightarrow> translation_context \<Rightarrow> string + translate_result" where
  "translate now dc ctx =
     (let sender = or_default (senderAddress ctx) ''inj1xxx'' in
      case SELECTOR_DB (selector dc) of
        None \<Rightarrow> Inr (Failure ''UNSUPPORTED'' (Some ''Function not supported''))
      | Some funcInfo \<Rightarrow>
          let mapping = injectiveMapping funcInfo in
          if matchType mapping = ''UNSUPPORTED''
          then Inr (Failure ''UNSUPPORTED_PATTERN'' (mapping_notes mapping))
          else
            let params = params_of (parameters dc);
                meta = \<lparr>meta_confidence = confidence mapping,
                        meta_matchType = matchType mapping,
                        warnings = (if truthy (mapping_notes mapping)
                                    then [show_js (mapping_notes mapping)] else []),
                        originalFunction = signature funcInfo\<rparr>
            in
            if name funcInfo = ''transfer'' then
              Inr (Success
                [build_MsgSend (Some sender)
                   (Some (or_default (or_else (recipientAddress ctx) (params ''to'')) ''inj1recipient''))
                   (params ''amount'') (ctx_denom ctx)]
                (''Transfer '' @ show_js (params ''amount'') @ '' tokens'') meta)
            else if name funcInfo = ''approve'' then
              (case build_MsgGrant now (Some sender)
                      (Some (or_default (or_else (spenderAddress ctx) (params ''spender'')) ''inj1spender''))
                      (params ''amount'') (ctx_denom ctx) of
                 Inl e \<Rightarrow> Inl e
               | Inr m \<Rightarrow> Inr (Success [m] ''Grant spending authorization'' meta))
            else if name funcInfo = ''transferFrom'' then
              Inr (Success
                [build_MsgSend (Some (or_default (params ''from'') sender))
                   (or_else (params ''to'') (recipientAddress ctx))
                   (params ''amount'') (ctx_denom ctx)]
                ''Transfer from authorized account'' meta)
            else if name funcInfo = ''swapExactTokensForTokens'' then
              Inr (Success
                [build_MsgSpotOrder sender (Some (or_default (MARKET_MAP ''INJ-USDT'') ''0x000''))
                   (params ''amountIn'') 1]
                ''Swap via spot market order'' meta)
            else if name funcInfo = ''swapExactETHForTokens'' then
              Inr (Success
                [build_MsgDeposit sender (Some (or_default (ethValue ctx) ''0'')),
                 build_MsgSpotOrder sender (Some (or_default (MARKET_MAP ''INJ-USDT'') ''0x000''))
                   (Some (or_default (ethValue ctx) ''0'')) 2]
                ''Deposit then swap (2-step)'' meta)
            else if name funcInfo = ''stake'' then
              Inr (Success
                [build_MsgDelegate (Some sender) (validator ctx) (params ''amount'')]
                (''Delegate '' @ show_js (params ''amount'') @ '' INJ'') meta)
            else if name funcInfo = ''withdraw'' then
              Inr (Success
                [build_MsgUndelegate (Some sender) (validator ctx) (params ''amount'')]
                (''Undelegate '' @ show_js (params ''amount'') @ '' INJ'') meta)
            else if name funcInfo = ''getReward'' then
              Inr (Success
                [build_MsgWithdrawReward (Some sender) (validator ctx)]
                ''Claim staking rewards'' meta)
            else Inr (Failure ''NO_BUILDER'' (Some (''No builder for '' @ name funcInfo))))"

section \<open>Calldata decoder\<close>

text \<open>
  The ABI decoder of the ethers library is an external capability: \<open>abi types data\<close> is
  either the message of the error it throws or the decoded values, each already
  rendered by \<^verbatim>\<open>toString()\<close>.
\<close>

type_synonym abi_decoder = "string list \<Rightarrow> string \<Rightarrow> string + string list"

text \<open>
  \<^verbatim>\<open>paramNames.map((name, i) => ({name, type: paramTypes[i], value: decoded[i].toString()}))\<close>:
  reading \<^verbatim>\<open>toString\<close> of a missing value throws a \<^verbatim>\<open>TypeError\<close>.
\<close>

fun name_params :: "string list \<Rightarrow> string list \<Rightarrow> string list \<Rightarrow> string + param list" where
  "name_params [] types vals = Inr []"
| "name_params (n # ns) types [] =
     Inl ''Cannot read properties of undefined (reading 'toString')''"
| "name_params (n # ns) types (v # vs) =
     (case name_params ns (tl types) vs of
        Inl e \<Rightarrow> Inl e
      | Inr ps \<Rightarrow>
          Inr (\<lparr>p_name = n, p_type = (case types of [] \<Rightarrow> None | t # _ \<Rightarrow> Some t),
                p_value = v\<rparr> # ps))"

text \<open>
  The argument of \<^verbatim>\<open>decodeCalldata\<close> comes from the parsed JSON body: it is missing
  (\<^verbatim>\<open>undefined\<close> or \<^verbatim>\<open>null\<close>), a string, or another JSON value (a number, a
  boolean, an array or an object), which has no method \<^verbatim>\<open>startsWith\<close>, so calling
  it throws a \<^verbatim>\<open>TypeError\<close>.
\<close>

datatype js_value = Undefined | Str string | Other

text \<open>\<open>Inl\<close> is the message of the error that \<^verbatim>\<open>decodeCalldata\<close> throws.\<close>

definition decodeCalldata :: "abi_decoder \<Rightarrow> js_value \<Rightarrow> string + decoded_call" where
  "decodeCalldata abi calldata =
     (case calldata of
        Undefined \<Rightarrow> Inl ''Invalid calldata''
      | Other \<Rightarrow> Inl ''calldata?.startsWith is not a function''
      | Str cd \<Rightarrow>
          if \<not> startsWith cd ''0x'' \<or> length cd < 10 then Inl ''Invalid calldata''
          else
            let sel = toLowerCase (take 10 cd);
                paramsData = ''0x'' @ drop 10 cd
            in
            (case SELECTOR_DB sel of
               None \<Rightarrow>
                 Inr \<lparr>selector = sel, functionName = None, d_signature = None, d_category = None,
                      parameters = None, decoded = False, error = Some ''Unknown selector''\<rparr>
             | Some funcInfo \<Rightarrow>
                 let failed = (\<lambda>e. \<lparr>selector = sel, functionName = Some (name funcInfo),
                                      d_signature = None, d_category = None, parameters = None,
                                      decoded = False, error = Some e\<rparr>);
                     ok = (\<lambda>ps. \<lparr>selector = sel, functionName = Some (name funcInfo),
                                     d_signature = Some (signature funcInfo),
                                     d_category = Some (category funcInfo),
                                     parameters = Some ps, decoded = True, error = None\<rparr>)
                 in
                 if length (paramTypes funcInfo) > 0 \<and> length paramsData > 2 then
                   (case abi (paramTypes funcInfo) paramsData of
                      Inl e \<Rightarrow> Inr (failed e)
                    | Inr vals \<Rightarrow>
                        (case name_params (paramNames funcInfo) (paramTypes funcInfo) vals of
                           Inl e \<Rightarrow> Inr (failed e)
                         | Inr ps \<Rightarrow> Inr (ok ps)))
                 else Inr (ok [])))"

section \<open>The translate route\<close>

text \<open>
  The \<^verbatim>\<open>input\<close> of a request: its type and action are strings or missing, its data
  is any JSON value.
\<close>

record request_input =
  input_type :: js_string
  input_data :: js_value
  input_action :: js_string
  input_params :: "(string \<times> string) list option"

definition intentMap :: "string \<Rightarrow> string option" where
  "intentMap = map_of
     [(''transfer'', ''0xa9059cbb''),
      (''approve'', ''0x095ea7b3''),
      (''swap'', ''0x38ed1739''),
      (''stake'', ''0xa694fc3a''),
      (''unstake'', ''0x2e1a7d4d''),
      (''claim'', ''0x3d18b912'')]"

text \<open>
  \<^verbatim>\<open>intentMap\<close> is a plain object, so \<^verbatim>\<open>intentMap[input.action]\<close> also finds the
  properties it inherits. Each of them is truthy and none is a key of the selector
  database, so reading \<^verbatim>\<open>funcInfo.name\<close> then throws a \<^verbatim>\<open>TypeError\<close>.
\<close>

definition object_prototype_keys :: "string list" where
  "object_prototype_keys =
     [''constructor'', ''__defineGetter__'', ''__defineSetter__'', ''hasOwnProperty'',
      ''__lookupGetter__'', ''__lookupSetter__'', ''isPrototypeOf'', ''propertyIsEnumerable'',
      ''toString'', ''valueOf'', ''__proto__'', ''toLocaleString'']"

datatype response_body =
    ErrorBody string js_string
  | TranslationBody "message list" string metadata "string \<times> string \<times> string"

record response =
  status_code :: nat
  body :: response_body

definition gasEstimate :: "string \<times> string \<times> string" where
  "gasEstimate = (''100000'', ''0.00005 INJ'', ''~95% cheaper'')"

text \<open>
  The values of \<^verbatim>\<open>input.params\<close> are strings, on which \<^verbatim>\<open>String(value)\<close> is the
  identity; the list holds the entries in the order of \<^verbatim>\<open>Object.entries\<close>.
\<close>

definition intent_call :: "string \<Rightarrow> func_info \<Rightarrow> (string \<times> string) list option \<Rightarrow> decoded_call" where
  "intent_call sel funcInfo ps =
     \<lparr>selector = sel, functionName = Some (name funcInfo),
      d_signature = Some (signature funcInfo), d_category = Some (category funcInfo),
      parameters =
        Some (map (\<lambda>(n, v). \<lparr>p_name = n, p_type = None, p_value = v\<rparr>)
                (case ps of None \<Rightarrow> [] | Some l \<Rightarrow> l)),
      decoded = True, error = None\<rparr>"

definition respond_translation :: "string + translate_result \<Rightarrow> response" where
  "respond_translation r =
     (case r of
        Inl e \<Rightarrow> \<lparr>status_code = 500, body = ErrorBody ''ERROR'' (Some e)\<rparr>
      | Inr (Failure c m) \<Rightarrow> \<lparr>status_code = 422, body = ErrorBody c m\<rparr>
      | Inr (Success ms ex meta) \<Rightarrow>
          \<lparr>status_code = 200, body = TranslationBody ms ex meta gasEstimate\<rparr>)"

definition translate_route ::
  "abi_decoder \<Rightarrow> int \<Rightarrow> request_input option \<Rightarrow> translation_context \<Rightarrow> response" where
  "translate_route abi now inp ctx =
     (case inp of
        None \<Rightarrow> \<lparr>status_code = 400, body = ErrorBody ''MISSING_INPUT'' (Some ''Input required'')\<rparr>
      | Some i \<Rightarrow>
          if input_type i = Some ''calldata'' then
            (case decodeCalldata abi (input_data i) of
               Inl e \<Rightarrow> \<lparr>status_code = 500, body = ErrorBody ''ERROR'' (Some e)\<rparr>
             | Inr dc \<Rightarrow>
                 if \<not> decoded dc
                 then \<lparr>status_code = 400, body = ErrorBody ''DECODE_FAILED'' (error dc)\<rparr>
                 else respond_translation (translate now dc ctx))
          else if input_type i = Some ''intent'' then
            (case intentMap (show_js (input_action i)) of
               None \<Rightarrow>
                 if show_js (input_action i) \<in> set object_prototype_keys
                 then \<lparr>status_code = 500,
                       body = ErrorBody ''ERROR''
                                (Some ''Cannot read properties of undefined (reading 'name')'')\<rparr>
                 else \<lparr>status_code = 400,
                       body = ErrorBody ''UNKNOWN_INTENT''
                                (Some (''Unknown: '' @ show_js (input_action i)))\<rparr>
             | Some sel \<Rightarrow>
                 (case SELECTOR_DB sel of
                    None \<Rightarrow>
                      \<lparr>status_code = 500,
                       body = ErrorBody ''ERROR''
                                (Some ''Cannot read properties of undefined (reading 'name')'')\<rparr>
                  | Some funcInfo \<Rightarrow>
                      respond_translation
                        (translate now (intent_call sel funcInfo (input_params i)) ctx)))
          else \<lparr>status_code = 400,
                body = ErrorBody ''INVALID_TYPE'' (Some ''Use calldata or intent'')\<rparr>)"

section \<open>Selector derivation\<close>

text \<open>
  \<^verbatim>\<open>ethers.id(text)\<close> is the Keccak-256 hash of the UTF-8 bytes of \<open>text\<close>, written
  as \<^verbatim>\<open>0x\<close> and 64 lowercase hexadecimal digits (a function of the ethers library,
  modelled from the Keccak specification). The hash is modelled on bits: a lane
  of the Keccak state is the list of its 64 bits, least significant first, and the
  state is the list of its 25 lanes, lane \<open>(x, y)\<close> at index \<open>x + 5 * y\<close>.
\<close>

type_synonym lane = "bool list"

fun xorb :: "bool \<Rightarrow> bool \<Rightarrow> bool" where
  "xorb True True = False"
| "xorb True False = True"
| "xorb False True = True"
| "xorb False False = False"

fun andnotb :: "bool \<Rightarrow> bool \<Rightarrow> bool" where
  "andnotb True True = False"
| "andnotb True False = False"
| "andnotb False True = True"
| "andnotb False False = False"

text \<open>Bitwise \<open>a XOR b\<close> and \<open>(NOT a) AND b\<close> on lanes.\<close>

fun xorl :: "lane \<Rightarrow> lane \<Rightarrow> lane" where
  "xorl (a # as) (b # bs) = xorb a b # xorl as bs"
| "xorl _ _ = []"

fun andnotl :: "lane \<Rightarrow> lane \<Rightarrow> lane" where
  "andnotl (a # as) (b # bs) = andnotb a b # andnotl as bs"
| "andnotl _ _ = []"

text \<open>Rotation of a 64-bit lane by \<open>n\<close> positions towards the most significant bit.\<close>

definition rotl :: "nat \<Rightarrow> lane \<Rightarrow> lane" where
  "rotl n xs = drop (64 - n) xs @ take (64 - n) xs"

text \<open>The four bits of a hexadecimal digit, least significant first.\<close>

definition hex_bits :: "char \<Rightarrow> bool list" where
  "hex_bits c =
    (if c = CHR ''0'' then [False, False, False, False]
     else if c = CHR ''1'' then [True, False, False, False]
     else if c = CHR ''2'' then [False, True, False, False]
     else if c = CHR ''3'' then [True, True, False, False]
     else if c = CHR ''4'' then [False, False, True, False]
     else if c = CHR ''5'' then [True, False, True, False]
     else if c = CHR ''6'' then [False, True, True, False]
     else if c = CHR ''7'' then [True, True, True, False]
     else if c = CHR ''8'' then [False, False, False, True]
     else if c = CHR ''9'' then [True, False, False, True]
     else if c = CHR ''A'' then [False, True, False, True]
     else if c = CHR ''B'' then [True, True, False, True]
     else if c = CHR ''C'' then [False, False, True, True]
     else if c = CHR ''D'' then [True, False, True, True]
     else if c = CHR ''E'' then [False, True, True, True]
     else [True, True, True, True])"

definition lane_of_hex :: "string \<Rightarrow> lane" where
  "lane_of_hex s = concat (map hex_bits (rev s))"

text \<open>The round constants and the rotation offsets (offset of lane \<open>(x, y)\<close> at \<open>x + 5 * y\<close>).\<close>

definition RC :: "lane list" where
  "RC = map lane_of_hex
        [''0000000000000001'', ''0000000000008082'', ''800000000000808A'', ''8000000080008000'',
         ''000000000000808B'', ''0000000080000001'', ''8000000080008081'', ''8000000000008009'',
         ''000000000000008A'', ''0000000000000088'', ''0000000080008009'', ''000000008000000A'',
         ''000000008000808B'', ''800000000000008B'', ''8000000000008089'', ''8000000000008003'',
         ''8000000000008002'', ''8000000000000080'', ''000000000000800A'', ''800000008000000A'',
         ''8000000080008081'', ''8000000000008080'', ''0000000080000001'', ''8000000080008008'']"

definition ROT :: "nat list" where
  "ROT = [0, 1, 62, 28, 27,
          36, 44, 6, 55, 20,
          3, 10, 43, 25, 39,
          41, 45, 15, 21, 8,
          18, 2, 61, 56, 14]"

text \<open>The step \<open>\<theta>\<close>: column parities \<open>C\<close>, their combination \<open>D\<close>, and its application.\<close>

definition theta_C :: "lane list \<Rightarrow> lane list" where
  "theta_C A =
     map (\<lambda>x. xorl (A ! x) (xorl (A ! (x + 5)) (xorl (A ! (x + 10))
                 (xorl (A ! (x + 15)) (A ! (x + 20)))))) [0..<5]"

definition theta_D :: "lane list \<Rightarrow> lane list" where
  "theta_D C = map (\<lambda>x. xorl (C ! ((x + 4) mod 5)) (rotl 1 (C ! ((x + 1) mod 5)))) [0..<5]"

definition theta_apply :: "lane list \<Rightarrow> lane list \<Rightarrow> lane list" where
  "theta_apply A D = map (\<lambda>i. xorl (A ! i) (D ! (i mod 5))) [0..<25]"

definition theta :: "lane list \<Rightarrow> lane list" where
  "theta A = theta_apply A (theta_D (theta_C A))"

text \<open>
  The steps \<open>\<rho>\<close> and \<open>\<pi>\<close>: the lane at \<open>(x, y)\<close>, rotated by its offset, moves to
  \<open>(y, 2x + 3y)\<close>; \<open>pi_src j\<close> is the index of the lane that arrives at index \<open>j\<close>.
\<close>

definition pi_src :: "nat \<Rightarrow> nat" where
  "pi_src j = (j mod 5 + 3 * (j div 5)) mod 5 + 5 * (j mod 5)"

definition rho_pi :: "lane list \<Rightarrow> lane list" where
  "rho_pi A = map (\<lambda>j. rotl (ROT ! pi_src j) (A ! pi_src j)) [0..<25]"

definition chi :: "lane list \<Rightarrow> lane list" where
  "chi B =
     map (\<lambda>j. xorl (B ! j)
                (andnotl (B ! ((j mod 5 + 1) mod 5 + 5 * (j div 5)))
                         (B ! ((j mod 5 + 2) mod 5 + 5 * (j div 5))))) [0..<25]"

definition iota :: "lane \<Rightarrow> lane list \<Rightarrow> lane list" where
  "iota rc A = (case A of [] \<Rightarrow> [] | a # as \<Rightarrow> xorl a rc # as)"

definition keccak_round :: "lane list \<Rightarrow> lane \<Rightarrow> lane list" where
  "keccak_round A rc = iota rc (chi (rho_pi (theta A)))"

definition keccak_f :: "lane list \<Rightarrow> lane list" where
  "keccak_f A = foldl keccak_round A RC"

text \<open>
  The sponge with rate 1088 and capacity 512: the message bits are padded with a one,
  zeros and a final one to a multiple of the rate (in bytes, \<^verbatim>\<open>01 00 ... 00 80\<close>),
  each block is added to the state and the state permuted; the digest is the first
  256 bits.
\<close>

fun bits_of_char :: "char \<Rightarrow> bool list" where
  "bits_of_char (Char b0 b1 b2 b3 b4 b5 b6 b7) = [b0, b1, b2, b3, b4, b5, b6, b7]"

text \<open>
  The UTF-8 bytes of a code unit up to 255: itself when below 128, else the two bytes
  \<open>110000xx 10xxxxxx\<close>; a \<^typ>\<open>char\<close> lists its bits from the least significant.
\<close>

fun utf8_char :: "char \<Rightarrow> string" where
  "utf8_char (Char b0 b1 b2 b3 b4 b5 b6 b7) =
     (if b7 then [Char b6 True False False False False True True,
                  Char b0 b1 b2 b3 b4 b5 False True]
      else [Char b0 b1 b2 b3 b4 b5 b6 False])"

definition utf8 :: "string \<Rightarrow> string" where
  "utf8 s = concat (map utf8_char s)"

function chop :: "nat \<Rightarrow> 'a list \<Rightarrow> 'a list list" where
  "chop n xs = (if n = 0 \<or> xs = [] then [] else take n xs # chop n (drop n xs))"
  by pat_completeness auto
termination
  by (relation "measure (\<lambda>(n, xs). length xs)") auto

declare chop.simps [simp del]

definition pad101 :: "bool list \<Rightarrow> bool list" where
  "pad101 m = m @ [True] @ replicate ((1088 - (length m + 2) mod 1088) mod 1088) False @ [True]"

definition absorb :: "lane list \<Rightarrow> bool list \<Rightarrow> lane list" where
  "absorb A block = keccak_f (map2 xorl A (chop 64 (block @ replicate 512 False)))"

definition keccak256_bits :: "bool list \<Rightarrow> bool list" where
  "keccak256_bits m =
     take 256 (concat (foldl absorb (replicate 25 (replicate 64 False)) (chop 1088 (pad101 m))))"

fun hex_digit :: "bool list \<Rightarrow> char" where
  "hex_digit [b0, b1, b2, b3] =
     ''0123456789abcdef'' !
       ((if b0 then 1 else 0) + (if b1 then 2 else 0) + (if b2 then 4 else 0) + (if b3 then 8 else 0))"
| "hex_digit _ = CHR ''?''"

text \<open>Each byte (eight bits, least significant first) as two digits, the high one first.\<close>

fun hex_of_bits :: "bool list \<Rightarrow> string" where
  "hex_of_bits (b0 # b1 # b2 # b3 # b4 # b5 # b6 # b7 # bs) =
     hex_digit [b4, b5, b6, b7] # hex_digit [b0, b1, b2, b3] # hex_of_bits bs"
| "hex_of_bits _ = []"

definition ethers_id :: "string \<Rightarrow> string" where
  "ethers_id s = ''0x'' @ hex_of_bits (keccak256_bits (concat (map bits_of_char (utf8 s))))"

text \<open>
  \<^verbatim>\<open>try { selector = ethers.id(pattern).slice(0, 10); } catch { selector = null; }\<close>.
  The library throws only on text with an unpaired surrogate, a code unit that has no
  counterpart in the model; the result stays optional as in the source.
\<close>

definition selector_of :: "string \<Rightarrow> js_string" where
  "selector_of pattern = Some (take 10 (ethers_id pattern))"

definition lookup_pattern :: "string \<Rightarrow> func_info option" where
  "lookup_pattern pattern =
     (case selector_of pattern of None \<Rightarrow> None | Some sel \<Rightarrow> SELECTOR_DB sel)"

section \<open>Compatibility scorer and migration estimator\<close>

text \<open>An entry of \<^verbatim>\<open>contractAbi\<close>: its type, its name and the types of its inputs.\<close>

record abi_item =
  item_type :: js_string
  item_name :: js_string
  item_inputs :: "js_string list option"

text \<open>\<^verbatim>\<open>xs.join(',')\<close>, in which a missing element is the empty string.\<close>

fun join_comma :: "js_string list \<Rightarrow> string" where
  "join_comma [] = []"
| "join_comma [x] = (case x of None \<Rightarrow> [] | Some s \<Rightarrow> s)"
| "join_comma (x # y # r) = (case x of None \<Rightarrow> [] | Some s \<Rightarrow> s) @ '','' @ join_comma (y # r)"

definition signature_of :: "abi_item \<Rightarrow> string" where
  "signature_of func =
     show_js (item_name func) @ ''('' @
     join_comma (case item_inputs func of None \<Rightarrow> [] | Some l \<Rightarrow> l) @ '')''"

definition is_function :: "abi_item \<Rightarrow> bool" where
  "is_function i = (item_type i = Some ''function'')"

record pattern_result =
  pattern :: string
  status :: string
  injectiveEquivalent :: js_string
  result_confidence :: "rat option"
  result_notes :: js_string

definition classify_pattern :: "string \<Rightarrow> pattern_result" where
  "classify_pattern p =
     (case lookup_pattern p of
        None \<Rightarrow>
          let lower = toLowerCase p in
          if includes_str lower ''flash''
          then \<lparr>pattern = p, status = ''UNSUPPORTED'', injectiveEquivalent = None,
                result_confidence = None, result_notes = Some ''Flash loans not supported''\<rparr>
          else if includes_str lower ''liquidity''
          then \<lparr>pattern = p, status = ''UNSUPPORTED'', injectiveEquivalent = None,
                result_confidence = None, result_notes = Some ''AMM not supported''\<rparr>
          else \<lparr>pattern = p, status = ''UNKNOWN'', injectiveEquivalent = None,
                result_confidence = None, result_notes = Some ''Not in database''\<rparr>
      | Some funcInfo \<Rightarrow>
          let m = injectiveMapping funcInfo in
          \<lparr>pattern = p,
           status = (if matchType m = ''UNSUPPORTED'' then ''UNSUPPORTED''
                     else if matchType m = ''DIRECT'' then ''SUPPORTED'' else ''PARTIAL''),
           injectiveEquivalent = msgType m,
           result_confidence = Some (confidence m),
           result_notes = mapping_notes m\<rparr>)"

text \<open>
  JavaScript numbers are double-precision floating-point numbers. A finite double is
  modelled by the rational it denotes, and every arithmetic operation rounds its exact
  result to the nearest double, ties to the even significand. \<open>round_double\<close> does so
  for 53-bit significands with no bound on the exponent, which agrees with the
  doubles for magnitudes from \<open>2\<^sup>-\<^sup>1\<^sup>0\<^sup>2\<^sup>2\<close> to below \<open>2\<^sup>1\<^sup>0\<^sup>2\<^sup>4\<close>; the numbers
  computed here are 0 or lie between \<open>2\<^sup>-\<^sup>3\<^sup>3\<close> and \<open>2\<^sup>3\<^sup>5\<close>.
\<close>

function bit_length :: "nat \<Rightarrow> nat" where
  "bit_length n = (if n = 0 then 0 else Suc (bit_length (n div 2)))"
  by pat_completeness auto
termination
  by (relation "measure id") auto

declare bit_length.simps [simp del]

definition pow2 :: "int \<Rightarrow> rat" where
  "pow2 e = (if 0 \<le> e then 2 ^ nat e else 1 / 2 ^ nat (- e))"

text \<open>For \<open>x > 0\<close>, the exponent \<open>e\<close> with \<open>2\<^sup>e \<le> x < 2\<^sup>e\<^sup>+\<^sup>1\<close>.\<close>

definition floor_log2 :: "rat \<Rightarrow> int" where
  "floor_log2 x =
     (if 1 \<le> x then int (bit_length (nat \<lfloor>x\<rfloor>)) - 1
      else (let k = - int (bit_length (nat \<lfloor>1 / x\<rfloor>))
            in if pow2 (k + 1) \<le> x then k + 1 else k))"

definition round_half_even :: "rat \<Rightarrow> int" where
  "round_half_even x =
     (let f = \<lfloor>x\<rfloor>; d = x - of_int f
      in if d < 1 / 2 then f else if 1 / 2 < d then f + 1 else if even f then f else f + 1)"

definition round_double :: "rat \<Rightarrow> rat" where
  "round_double x =
     (if x = 0 then 0
      else (let e = floor_log2 \<bar>x\<bar> - 52
            in sgn x * of_int (round_half_even (\<bar>x\<bar> / pow2 e)) * pow2 e))"

definition fadd :: "rat \<Rightarrow> rat \<Rightarrow> rat" where
  "fadd a b = round_double (a + b)"

definition fmul :: "rat \<Rightarrow> rat \<Rightarrow> rat" where
  "fmul a b = round_double (a * b)"

definition fdiv :: "rat \<Rightarrow> rat \<Rightarrow> rat" where
  "fdiv a b = round_double (a / b)"

text \<open>\<^verbatim>\<open>Math.round\<close>: the nearest integer, halves rounded up.\<close>

definition js_round :: "rat \<Rightarrow> int" where
  "js_round x = \<lfloor>x + 1 / 2\<rfloor>"

text \<open>\<^verbatim>\<open>Math.round(((supported + partial * 0.5) / total) * 100)\<close>.\<close>

definition percentage :: "nat \<Rightarrow> nat \<Rightarrow> nat \<Rightarrow> int" where
  "percentage supported partial tot =
     js_round (fmul (fdiv (fadd (of_nat supported) (fmul (of_nat partial) (1 / 2))) (of_nat tot)) 100)"

function show_nat :: "nat \<Rightarrow> string" where
  "show_nat n = (if n < 10 then [digit_char n] else show_nat (n div 10) @ [digit_char n])"
  by pat_completeness auto
termination
  by (relation "measure id") auto

declare show_nat.simps [simp del]

record compatibility_report =
  score :: int
  overall_status :: string
  summary :: string
  patterns :: "pattern_result list"
  recommendations :: "string list"

text \<open>The route \<^verbatim>\<open>/api/v1/compatibility\<close>; \<open>Inl\<close> is the error response.\<close>

definition compatibility ::
  "string list \<Rightarrow> abi_item list \<Rightarrow> (nat \<times> string \<times> string) + compatibility_report" where
  "compatibility pats contractAbi =
     (let allPatterns = pats @ map signature_of (filter is_function contractAbi) in
      if allPatterns = [] then Inl (400, ''MISSING_INPUT'', ''Provide patterns or ABI'')
      else
        let results = map classify_pattern allPatterns;
            supported = length (filter (\<lambda>r. status r = ''SUPPORTED'') results);
            partial = length (filter (\<lambda>r. status r = ''PARTIAL'') results);
            unsupported =
              length (filter (\<lambda>r. status r = ''UNSUPPORTED'' \<or> status r = ''UNKNOWN'') results);
            sc = percentage supported partial (length results)
        in Inr \<lparr>score = sc,
                overall_status = (if sc \<ge> 80 then ''MOSTLY_COMPATIBLE''
                                  else if sc \<ge> 50 then ''PARTIALLY_COMPATIBLE''
                                  else ''INCOMPATIBLE''),
                summary = show_nat supported @ ''/'' @ show_nat (length results) @ '' supported'',
                patterns = results,
                recommendations =
                  (if supported < length results then [''Some patterns need workarounds''] else []) @
                  (if unsupported > 0 then [''Unsupported patterns require redesign''] else [])\<rparr>)"






section \<open>Observations on results\<close>

text \<open>
  The amount fields of a message: the amounts of its coins, or the quantity of a spot
  order.
\<close>

fun msg_amounts :: "message \<Rightarrow> js_string list" where
  "msg_amounts (MsgSend _ _ coins) = map amount coins"
| "msg_amounts (MsgDelegate _ _ c) = [amount c]"
| "msg_amounts (MsgUndelegate _ _ c) = [amount c]"
| "msg_amounts (MsgWithdrawReward _ _) = []"
| "msg_amounts (MsgGrant _ _ coins _) = map amount coins"
| "msg_amounts (MsgSpotOrder _ _ _ _ _ quantity _ _) = [quantity]"
| "msg_amounts (MsgDeposit _ _ c) = [amount c]"

text \<open>An ABI decoder that rejects every input, for the examples.\<close>

definition failing_abi :: abi_decoder where
  "failing_abi types data = Inl ''data out-of-bounds''"

text \<open>The context \<^verbatim>\<open>{}\<close>.\<close>

definition empty_context :: translation_context where
  "empty_context = \<lparr>senderAddress = None, recipientAddress = None, spenderAddress = None,
     ctx_denom = None, validator = None, ethValue = None\<rparr>"

text \<open>The request input \<^verbatim>\<open>{type: "calldata", data}\<close>.\<close>

definition calldata_input :: "js_value \<Rightarrow> request_input" where
  "calldata_input d =
     \<lparr>input_type = Some ''calldata'', input_data = d, input_action = None, input_params = None\<rparr>"

text \<open>The object \<^verbatim>\<open>decodeCalldata\<close> returns for a registered function with the parameters \<open>ps\<close>.\<close>

definition decoded_as :: "string \<Rightarrow> func_info \<Rightarrow> param list \<Rightarrow> decoded_call" where
  "decoded_as sel funcInfo ps =
     \<lparr>selector = sel, functionName = Some (name funcInfo),
      d_signature = Some (signature funcInfo), d_category = Some (category funcInfo),
      parameters = Some ps, decoded = True, error = None\<rparr>"

text \<open>
  The priority of the specification: the first value that is present (a non-empty
  string) among the candidates, else the placeholder.
\<close>

fun first_present :: "js_string list \<Rightarrow> string \<Rightarrow> string" where
  "first_present [] placeholder = placeholder"
| "first_present (v # vs) placeholder =
     (case v of
        None \<Rightarrow> first_present vs placeholder
      | Some s \<Rightarrow> if s = [] then first_present vs placeholder else s)"


definition approve_intent :: request_input where
  "approve_intent = \<lparr>input_type = Some ''intent'', input_data = Undefined,
     input_action = Some ''approve'', input_params = Some [(''amount'', ''5'')]\<rparr>"

definition ctx_both :: translation_context where
  "ctx_both = \<lparr>senderAddress = Some ''inj1ctxsender'', recipientAddress = Some ''inj1ctxrecipient'',
     spenderAddress = Some ''inj1ctxspender'', ctx_denom = None,
     validator = Some ''injvaloper1ctx'', ethValue = None\<rparr>"

text \<open>The objects \<^verbatim>\<open>decodeCalldata\<close> returns when decoding does not succeed.\<close>

definition unknown_call :: "string \<Rightarrow> decoded_call" where
  "unknown_call sel =
     \<lparr>selector = sel, functionName = None, d_signature = None, d_category = None,
      parameters = None, decoded = False, error = Some ''Unknown selector''\<rparr>"

definition failed_call :: "string \<Rightarrow> func_info \<Rightarrow> string \<Rightarrow> decoded_call" where
  "failed_call sel funcInfo e =
     \<lparr>selector = sel, functionName = Some (name funcInfo), d_signature = None, d_category = None,
      parameters = None, decoded = False, error = Some e\<rparr>"

section \<open>Properties of the registry\<close>

lemma SELECTOR_DB_cases:
  assumes "SELECTOR_DB k = Some fi"
  shows "(k, fi) \<in> set SELECTOR_DB_entries"
  using assms unfolding SELECTOR_DB_def by (rule map_of_SomeD)

text \<open>
  Claim C9. For every mapping descriptor of the registry, having match type
  \<^verbatim>\<open>UNSUPPORTED\<close>, having confidence 0 and having no target message type are
  equivalent; every other entry has a confidence in the interval (0,1] and a target
  message type.
\<close>

theorem registry_mapping_invariant:
  assumes "SELECTOR_DB k = Some fi"
  shows "((matchType (injectiveMapping fi) = ''UNSUPPORTED'') = (confidence (injectiveMapping fi) = 0))
       \<and> ((confidence (injectiveMapping fi) = 0) = (msgType (injectiveMapping fi) = None))
       \<and> (matchType (injectiveMapping fi) \<noteq> ''UNSUPPORTED'' \<longrightarrow>
            0 < confidence (injectiveMapping fi) \<and> confidence (injectiveMapping fi) \<le> 1
            \<and> msgType (injectiveMapping fi) \<noteq> None)"
  using SELECTOR_DB_cases [OF assms] unfolding SELECTOR_DB_entries_def
  by (elim disjE | simp)+

theorem registry_mapping_invariant_witness:
  "SELECTOR_DB ''0xe8e33700'' = Some (the (SELECTOR_DB ''0xe8e33700''))
   \<and> matchType (injectiveMapping (the (SELECTOR_DB ''0xe8e33700''))) = ''UNSUPPORTED''
   \<and> confidence (injectiveMapping (the (SELECTOR_DB ''0xe8e33700''))) = 0
   \<and> msgType (injectiveMapping (the (SELECTOR_DB ''0xe8e33700''))) = None
   \<and> SELECTOR_DB ''0xa9059cbb'' = Some (the (SELECTOR_DB ''0xa9059cbb''))
   \<and> matchType (injectiveMapping (the (SELECTOR_DB ''0xa9059cbb''))) \<noteq> ''UNSUPPORTED''
   \<and> 0 < confidence (injectiveMapping (the (SELECTOR_DB ''0xa9059cbb'')))
   \<and> confidence (injectiveMapping (the (SELECTOR_DB ''0xa9059cbb''))) \<le> 1
   \<and> msgType (injectiveMapping (the (SELECTOR_DB ''0xa9059cbb''))) \<noteq> None"
proof -
  have u: "SELECTOR_DB ''0xe8e33700'' = Some (the (SELECTOR_DB ''0xe8e33700''))"
    by (simp add: SELECTOR_DB_def SELECTOR_DB_entries_def)
  have d: "SELECTOR_DB ''0xa9059cbb'' = Some (the (SELECTOR_DB ''0xa9059cbb''))"
    by (simp add: SELECTOR_DB_def SELECTOR_DB_entries_def)
  show ?thesis
    using registry_mapping_invariant [OF u] registry_mapping_invariant [OF d]
    by (simp add: SELECTOR_DB_def SELECTOR_DB_entries_def)
qed

section \<open>Properties of the translation\<close>

text \<open>
  Claim C5. For every decoded call whose registry mapping has match type
  \<^verbatim>\<open>UNSUPPORTED\<close>, the translation fails with the error code
  \<^verbatim>\<open>UNSUPPORTED_PATTERN\<close>; the result is the failure object, which holds no
  message list.
\<close>

theorem translate_unsupported_pattern:
  assumes "SELECTOR_DB (selector dc) = Some fi"
    and "matchType (injectiveMapping fi) = ''UNSUPPORTED''"
  shows "translate now dc ctx =
           Inr (Failure ''UNSUPPORTED_PATTERN'' (mapping_notes (injectiveMapping fi)))"
  using assms by (simp add: translate_def Let_def)

theorem translate_unsupported_pattern_witness:
  "SELECTOR_DB (selector \<lparr>selector = ''0xab9c4b5d'', functionName = None, d_signature = None,
       d_category = None, parameters = None, decoded = True, error = None\<rparr>)
     = Some (the (SELECTOR_DB ''0xab9c4b5d''))
   \<and> matchType (injectiveMapping (the (SELECTOR_DB ''0xab9c4b5d''))) = ''UNSUPPORTED''
   \<and> translate 0 \<lparr>selector = ''0xab9c4b5d'', functionName = None, d_signature = None,
       d_category = None, parameters = None, decoded = True, error = None\<rparr>
       \<lparr>senderAddress = None, recipientAddress = None, spenderAddress = None,
        ctx_denom = None, validator = None, ethValue = None\<rparr>
     = Inr (Failure ''UNSUPPORTED_PATTERN'' (Some ''Flash loans not supported on Injective''))"
proof -
  let ?dc = "\<lparr>selector = ''0xab9c4b5d'', functionName = None, d_signature = None,
       d_category = None, parameters = None, decoded = True, error = None\<rparr>"
  have h: "SELECTOR_DB (selector ?dc) = Some (the (SELECTOR_DB ''0xab9c4b5d''))"
    by (simp add: SELECTOR_DB_def SELECTOR_DB_entries_def)
  have m: "matchType (injectiveMapping (the (SELECTOR_DB ''0xab9c4b5d''))) = ''UNSUPPORTED''"
    by (simp add: SELECTOR_DB_def SELECTOR_DB_entries_def)
  show ?thesis
    using translate_unsupported_pattern [OF h m, of 0 "\<lparr>senderAddress = None,
        recipientAddress = None, spenderAddress = None, ctx_denom = None, validator = None,
        ethValue = None\<rparr>"]
    by (simp add: SELECTOR_DB_def SELECTOR_DB_entries_def)
qed

text \<open>
  Claim C1. The intent \<^verbatim>\<open>{action: "transfer", params: {amount: "1000000000"}}\<close> with the
  context \<^verbatim>\<open>{senderAddress: "A", recipientAddress: "B"}\<close> is answered with exactly one
  message, a \<^verbatim>\<open>MsgSend\<close> from A to B whose coin carries the amount string unchanged,
  and with match type \<^verbatim>\<open>DIRECT\<close> in the metadata, whatever the ABI decoder and the
  clock are.
\<close>

theorem translate_transfer_intent:
  "translate_route abi now
     (Some \<lparr>input_type = Some ''intent'', input_data = Undefined, input_action = Some ''transfer'',
            input_params = Some [(''amount'', ''1000000000'')]\<rparr>)
     \<lparr>senderAddress = Some ''A'', recipientAddress = Some ''B'', spenderAddress = None,
      ctx_denom = None, validator = None, ethValue = None\<rparr>
   = \<lparr>status_code = 200,
      body = TranslationBody
        [MsgSend (Some ''A'') (Some ''B'') [\<lparr>denom = ''inj'', amount = Some ''1000000000''\<rparr>]]
        ''Transfer 1000000000 tokens''
        \<lparr>meta_confidence = 98 / 100, meta_matchType = ''DIRECT'', warnings = [],
         originalFunction = ''transfer(address,uint256)''\<rparr>
        gasEstimate\<rparr>"
  by (simp add: translate_route_def intentMap_def show_js_def SELECTOR_DB_def SELECTOR_DB_entries_def
      intent_call_def translate_def respond_translation_def or_default_def or_else_def truthy_def
      params_of_def build_MsgSend_def default_denom_def Let_def)

section \<open>Evaluation lemmas\<close>

lemmas js_ops = or_default_def or_else_def truthy_def show_js_def default_denom_def

lemma lookup_transfer: "SELECTOR_DB ''0xa9059cbb'' = Some (snd (SELECTOR_DB_entries ! 0))"
  by (simp add: SELECTOR_DB_def SELECTOR_DB_entries_def)

lemma lookup_approve: "SELECTOR_DB ''0x095ea7b3'' = Some (snd (SELECTOR_DB_entries ! 1))"
  by (simp add: SELECTOR_DB_def SELECTOR_DB_entries_def)

lemma lookup_transferFrom: "SELECTOR_DB ''0x23b872dd'' = Some (snd (SELECTOR_DB_entries ! 2))"
  by (simp add: SELECTOR_DB_def SELECTOR_DB_entries_def)

lemma lookup_swapExactTokensForTokens:
  "SELECTOR_DB ''0x38ed1739'' = Some (snd (SELECTOR_DB_entries ! 3))"
  by (simp add: SELECTOR_DB_def SELECTOR_DB_entries_def)

lemma lookup_swapExactETHForTokens:
  "SELECTOR_DB ''0x7ff36ab5'' = Some (snd (SELECTOR_DB_entries ! 4))"
  by (simp add: SELECTOR_DB_def SELECTOR_DB_entries_def)

lemma lookup_addLiquidity: "SELECTOR_DB ''0xe8e33700'' = Some (snd (SELECTOR_DB_entries ! 5))"
  by (simp add: SELECTOR_DB_def SELECTOR_DB_entries_def)

lemma lookup_stake: "SELECTOR_DB ''0xa694fc3a'' = Some (snd (SELECTOR_DB_entries ! 6))"
  by (simp add: SELECTOR_DB_def SELECTOR_DB_entries_def)

lemma lookup_withdraw: "SELECTOR_DB ''0x2e1a7d4d'' = Some (snd (SELECTOR_DB_entries ! 7))"
  by (simp add: SELECTOR_DB_def SELECTOR_DB_entries_def)

lemma lookup_getReward: "SELECTOR_DB ''0x3d18b912'' = Some (snd (SELECTOR_DB_entries ! 8))"
  by (simp add: SELECTOR_DB_def SELECTOR_DB_entries_def)

lemma lookup_flashLoan: "SELECTOR_DB ''0xab9c4b5d'' = Some (snd (SELECTOR_DB_entries ! 9))"
  by (simp add: SELECTOR_DB_def SELECTOR_DB_entries_def)

lemma pad_num_numeral:
  "pad_num (numeral k) n = pad_num (pred_numeral k) (n div 10) @ [digit_char n]"
  by (metis numeral_eq_Suc pad_num.simps(2))

lemma pad_num_1: "pad_num 1 n = [digit_char n]"
  by (metis One_nat_def append_Nil pad_num.simps(1) pad_num.simps(2))

lemmas iso_eval = toISOString_def year_string_def pad_num_numeral pad_num_1 digit_char_def

lemma civil_365: "civil_from_days 365 = (1971, 1, 1)"
  by code_simp

lemma toISOString_1971: "toISOString 31536000000 = Inr ''1971-01-01T00:00:00.000Z''"
  by (simp add: iso_eval civil_365)

lemma toISOString_1971_1s: "toISOString 31536001000 = Inr ''1971-01-01T00:00:01.000Z''"
  by (simp add: iso_eval civil_365)

lemma toISOString_in_range:
  "\<bar>t\<bar> \<le> 8640000000000000 \<Longrightarrow> \<exists>s. toISOString t = Inr s"
  by (simp add: toISOString_def)

lemma toISOString_out_of_range:
  "8640000000000000 < \<bar>t\<bar> \<Longrightarrow> toISOString t = Inl ''Invalid time value''"
  by (simp add: toISOString_def)

section \<open>Address resolution in the message builder\<close>

lemma first_present_1: "first_present [a] d = or_default a d"
  by (simp add: or_default_def split: option.splits)

lemma first_present_2: "first_present [a, b] d = or_default (or_else a b) d"
  by (simp add: or_default_def or_else_def truthy_def split: option.splits)

lemma transfer_addresses:
  assumes "selector dc = ''0xa9059cbb''"
  shows "\<exists>coins ex meta. translate now dc ctx =
      Inr (Success
        [MsgSend (Some (first_present [senderAddress ctx] ''inj1xxx''))
           (Some (first_present [recipientAddress ctx, params_of (parameters dc) ''to'']
                    ''inj1recipient'')) coins] ex meta)"
  using assms
  by (simp add: translate_def lookup_transfer SELECTOR_DB_entries_def Let_def build_MsgSend_def
      first_present_1 first_present_2 del: first_present.simps)

lemma approve_addresses:
  assumes "selector dc = ''0x095ea7b3''" "\<bar>now + 31536000000\<bar> \<le> 8640000000000000"
  shows "\<exists>coins expiration ex meta. translate now dc ctx =
      Inr (Success
        [MsgGrant (Some (first_present [senderAddress ctx] ''inj1xxx''))
           (Some (first_present [spenderAddress ctx, params_of (parameters dc) ''spender'']
                    ''inj1spender'')) coins expiration] ex meta)"
proof -
  obtain s where s: "toISOString (now + 31536000000) = Inr s"
    using toISOString_in_range [OF assms(2)] by blast
  show ?thesis
    using assms(1) s
    by (simp add: translate_def lookup_approve SELECTOR_DB_entries_def Let_def build_MsgGrant_def
        first_present_1 first_present_2 del: first_present.simps)
qed

lemma transferFrom_addresses:
  assumes "selector dc = ''0x23b872dd''"
  shows "\<exists>to coins ex meta. translate now dc ctx =
      Inr (Success
        [MsgSend (Some (first_present [params_of (parameters dc) ''from'', senderAddress ctx]
                          ''inj1xxx'')) to coins] ex meta)"
  using assms
  by (simp add: translate_def lookup_transferFrom SELECTOR_DB_entries_def Let_def build_MsgSend_def
      first_present_1 first_present_2 js_ops split: option.splits del: first_present.simps)

lemma swap_tokens_addresses:
  assumes "selector dc = ''0x38ed1739''"
  shows "\<exists>market quantity ex meta. translate now dc ctx =
      Inr (Success
        [MsgSpotOrder (first_present [senderAddress ctx] ''inj1xxx'') market
           (getSubaccountId (first_present [senderAddress ctx] ''inj1xxx''))
           (first_present [senderAddress ctx] ''inj1xxx'') ''0'' quantity 1 ''0''] ex meta)"
  using assms
  by (simp add: translate_def lookup_swapExactTokensForTokens SELECTOR_DB_entries_def Let_def
      build_MsgSpotOrder_def first_present_1 del: first_present.simps)

lemma swap_eth_addresses:
  assumes "selector dc = ''0x7ff36ab5''"
  shows "\<exists>deposit market quantity ex meta. translate now dc ctx =
      Inr (Success
        [MsgDeposit (first_present [senderAddress ctx] ''inj1xxx'')
           (getSubaccountId (first_present [senderAddress ctx] ''inj1xxx'')) deposit,
         MsgSpotOrder (first_present [senderAddress ctx] ''inj1xxx'') market
           (getSubaccountId (first_present [senderAddress ctx] ''inj1xxx''))
           (first_present [senderAddress ctx] ''inj1xxx'') ''0'' quantity 2 ''0''] ex meta)"
  using assms
  by (simp add: translate_def lookup_swapExactETHForTokens SELECTOR_DB_entries_def Let_def
      build_MsgSpotOrder_def build_MsgDeposit_def first_present_1 del: first_present.simps)

lemma stake_addresses:
  assumes "selector dc = ''0xa694fc3a''"
  shows "\<exists>amt ex meta. translate now dc ctx =
      Inr (Success
        [MsgDelegate (Some (first_present [senderAddress ctx] ''inj1xxx''))
           (first_present [validator ctx] ''injvaloper1xxx'') amt] ex meta)"
  using assms
  by (simp add: translate_def lookup_stake SELECTOR_DB_entries_def Let_def build_MsgDelegate_def
      first_present_1 del: first_present.simps)

lemma withdraw_addresses:
  assumes "selector dc = ''0x2e1a7d4d''"
  shows "\<exists>amt ex meta. translate now dc ctx =
      Inr (Success
        [MsgUndelegate (Some (first_present [senderAddress ctx] ''inj1xxx''))
           (first_present [validator ctx] ''injvaloper1xxx'') amt] ex meta)"
  using assms
  by (simp add: translate_def lookup_withdraw SELECTOR_DB_entries_def Let_def
      build_MsgUndelegate_def first_present_1 del: first_present.simps)

lemma getReward_addresses:
  assumes "selector dc = ''0x3d18b912''"
  shows "\<exists>ex meta. translate now dc ctx =
      Inr (Success
        [MsgWithdrawReward (Some (first_present [senderAddress ctx] ''inj1xxx''))
           (first_present [validator ctx] ''injvaloper1xxx'')] ex meta)"
  using assms
  by (simp add: translate_def lookup_getReward SELECTOR_DB_entries_def Let_def
      build_MsgWithdrawReward_def first_present_1 del: first_present.simps)

text \<open>
  Claim C6, as amended. An address is present when it is a non-empty string. In
  every construction rule each actor address is the first present value among the
  context field, then the decoded parameter of the matching role where the function
  has one, else the placeholder: the sender (granter, delegator) is the context
  sender, else \<^verbatim>\<open>inj1xxx\<close>; the recipient of \<^verbatim>\<open>transfer\<close> is the context recipient,
  else the parameter \<^verbatim>\<open>to\<close>, else \<^verbatim>\<open>inj1recipient\<close>; the grantee of \<^verbatim>\<open>approve\<close> is
  the context spender, else the parameter \<^verbatim>\<open>spender\<close>, else \<^verbatim>\<open>inj1spender\<close>; the
  validator is the context validator, else \<^verbatim>\<open>injvaloper1xxx\<close>. The one exception is
  the source address of \<^verbatim>\<open>transferFrom\<close>, the account named by the call itself: the
  decoded parameter \<^verbatim>\<open>from\<close> comes before the context sender. Nothing is stated
  about the destination address of \<^verbatim>\<open>transferFrom\<close>.
\<close>

theorem actor_address_resolution:
  "(selector dc = ''0xa9059cbb'' \<longrightarrow>
      (\<exists>coins ex meta. translate now dc ctx =
        Inr (Success
          [MsgSend (Some (first_present [senderAddress ctx] ''inj1xxx''))
             (Some (first_present [recipientAddress ctx, params_of (parameters dc) ''to'']
                      ''inj1recipient'')) coins] ex meta)))
 \<and> (selector dc = ''0x095ea7b3'' \<and> \<bar>now + 31536000000\<bar> \<le> 8640000000000000 \<longrightarrow>
      (\<exists>coins expiration ex meta. translate now dc ctx =
        Inr (Success
          [MsgGrant (Some (first_present [senderAddress ctx] ''inj1xxx''))
             (Some (first_present [spenderAddress ctx, params_of (parameters dc) ''spender'']
                      ''inj1spender'')) coins expiration] ex meta)))
 \<and> (selector dc = ''0x23b872dd'' \<longrightarrow>
      (\<exists>to coins ex meta. translate now dc ctx =
        Inr (Success
          [MsgSend (Some (first_present [params_of (parameters dc) ''from'', senderAddress ctx]
                            ''inj1xxx'')) to coins] ex meta)))
 \<and> (selector dc = ''0x38ed1739'' \<longrightarrow>
      (\<exists>market quantity ex meta. translate now dc ctx =
        Inr (Success
          [MsgSpotOrder (first_present [senderAddress ctx] ''inj1xxx'') market
             (getSubaccountId (first_present [senderAddress ctx] ''inj1xxx''))
             (first_present [senderAddress ctx] ''inj1xxx'') ''0'' quantity 1 ''0''] ex meta)))
 \<and> (selector dc = ''0x7ff36ab5'' \<longrightarrow>
      (\<exists>deposit market quantity ex meta. translate now dc ctx =
        Inr (Success
          [MsgDeposit (first_present [senderAddress ctx] ''inj1xxx'')
             (getSubaccountId (first_present [senderAddress ctx] ''inj1xxx'')) deposit,
           MsgSpotOrder (first_present [senderAddress ctx] ''inj1xxx'') market
             (getSubaccountId (first_present [senderAddress ctx] ''inj1xxx''))
             (first_present [senderAddress ctx] ''inj1xxx'') ''0'' quantity 2 ''0''] ex meta)))
 \<and> (selector dc = ''0xa694fc3a'' \<longrightarrow>
      (\<exists>amt ex meta. translate now dc ctx =
        Inr (Success
          [MsgDelegate (Some (first_present [senderAddress ctx] ''inj1xxx''))
             (first_present [validator ctx] ''injvaloper1xxx'') amt] ex meta)))
 \<and> (selector dc = ''0x2e1a7d4d'' \<longrightarrow>
      (\<exists>amt ex meta. translate now dc ctx =
        Inr (Success
          [MsgUndelegate (Some (first_present [senderAddress ctx] ''inj1xxx''))
             (first_present [validator ctx] ''injvaloper1xxx'') amt] ex meta)))
 \<and> (selector dc = ''0x3d18b912'' \<longrightarrow>
      (\<exists>ex meta. translate now dc ctx =
        Inr (Success
          [MsgWithdrawReward (Some (first_present [senderAddress ctx] ''inj1xxx''))
             (first_present [validator ctx] ''injvaloper1xxx'')] ex meta)))"
  using transfer_addresses [of dc now ctx] approve_addresses [of dc now ctx]
    transferFrom_addresses [of dc now ctx] swap_tokens_addresses [of dc now ctx]
    swap_eth_addresses [of dc now ctx] stake_addresses [of dc now ctx]
    withdraw_addresses [of dc now ctx] getReward_addresses [of dc now ctx]
  by (intro conjI impI) simp_all

theorem actor_address_resolution_witness:
  "selector (decoded_as ''0xa9059cbb'' (snd (SELECTOR_DB_entries ! 0))
          [\<lparr>p_name = ''to'', p_type = Some ''address'', p_value = ''0xparamto''\<rparr>]) = ''0xa9059cbb''
   \<and> (\<exists>coins ex meta. translate 0 (decoded_as ''0xa9059cbb'' (snd (SELECTOR_DB_entries ! 0))
          [\<lparr>p_name = ''to'', p_type = Some ''address'', p_value = ''0xparamto''\<rparr>]) ctx_both
        = Inr (Success [MsgSend (Some ''inj1ctxsender'') (Some ''inj1ctxrecipient'') coins] ex meta))
   \<and> selector (decoded_as ''0x095ea7b3'' (snd (SELECTOR_DB_entries ! 1))
          [\<lparr>p_name = ''spender'', p_type = Some ''address'', p_value = ''0xparamspender''\<rparr>]) = ''0x095ea7b3''
   \<and> \<bar>0 + 31536000000\<bar> \<le> (8640000000000000 :: int)
   \<and> (\<exists>coins expiration ex meta. translate 0 (decoded_as ''0x095ea7b3'' (snd (SELECTOR_DB_entries ! 1))
          [\<lparr>p_name = ''spender'', p_type = Some ''address'', p_value = ''0xparamspender''\<rparr>]) empty_context
        = Inr (Success [MsgGrant (Some ''inj1xxx'') (Some ''0xparamspender'') coins expiration]
                 ex meta))
   \<and> selector (decoded_as ''0x23b872dd'' (snd (SELECTOR_DB_entries ! 2))
          []) = ''0x23b872dd''
   \<and> (\<exists>to coins ex meta. translate 0 (decoded_as ''0x23b872dd'' (snd (SELECTOR_DB_entries ! 2))
          []) ctx_both
        = Inr (Success [MsgSend (Some ''inj1ctxsender'') to coins] ex meta))
   \<and> selector (decoded_as ''0x38ed1739'' (snd (SELECTOR_DB_entries ! 3))
          []) = ''0x38ed1739''
   \<and> (\<exists>market quantity ex meta. translate 0 (decoded_as ''0x38ed1739'' (snd (SELECTOR_DB_entries ! 3))
          []) ctx_both
        = Inr (Success [MsgSpotOrder ''inj1ctxsender'' market (getSubaccountId ''inj1ctxsender'')
                          ''inj1ctxsender'' ''0'' quantity 1 ''0''] ex meta))
   \<and> selector (decoded_as ''0x7ff36ab5'' (snd (SELECTOR_DB_entries ! 4))
          []) = ''0x7ff36ab5''
   \<and> (\<exists>deposit market quantity ex meta. translate 0 (decoded_as ''0x7ff36ab5'' (snd (SELECTOR_DB_entries ! 4))
          []) empty_context
        = Inr (Success [MsgDeposit ''inj1xxx'' (getSubaccountId ''inj1xxx'') deposit,
                        MsgSpotOrder ''inj1xxx'' market (getSubaccountId ''inj1xxx'')
                          ''inj1xxx'' ''0'' quantity 2 ''0''] ex meta))
   \<and> selector (decoded_as ''0xa694fc3a'' (snd (SELECTOR_DB_entries ! 6))
          []) = ''0xa694fc3a''
   \<and> (\<exists>amt ex meta. translate 0 (decoded_as ''0xa694fc3a'' (snd (SELECTOR_DB_entries ! 6))
          []) ctx_both
        = Inr (Success [MsgDelegate (Some ''inj1ctxsender'') ''injvaloper1ctx'' amt] ex meta))
   \<and> selector (decoded_as ''0x2e1a7d4d'' (snd (SELECTOR_DB_entries ! 7))
          []) = ''0x2e1a7d4d''
   \<and> (\<exists>amt ex meta. translate 0 (decoded_as ''0x2e1a7d4d'' (snd (SELECTOR_DB_entries ! 7))
          []) empty_context
        = Inr (Success [MsgUndelegate (Some ''inj1xxx'') ''injvaloper1xxx'' amt] ex meta))
   \<and> selector (decoded_as ''0x3d18b912'' (snd (SELECTOR_DB_entries ! 8))
          []) = ''0x3d18b912''
   \<and> (\<exists>ex meta. translate 0 (decoded_as ''0x3d18b912'' (snd (SELECTOR_DB_entries ! 8))
          []) ctx_both
        = Inr (Success [MsgWithdrawReward (Some ''inj1ctxsender'') ''injvaloper1ctx''] ex meta))"
proof -
  let ?d1 = "decoded_as ''0xa9059cbb'' (snd (SELECTOR_DB_entries ! 0))
          [\<lparr>p_name = ''to'', p_type = Some ''address'', p_value = ''0xparamto''\<rparr>]"
  let ?d2 = "decoded_as ''0x095ea7b3'' (snd (SELECTOR_DB_entries ! 1))
          [\<lparr>p_name = ''spender'', p_type = Some ''address'', p_value = ''0xparamspender''\<rparr>]"
  let ?d3 = "decoded_as ''0x23b872dd'' (snd (SELECTOR_DB_entries ! 2))
          []"
  let ?d4 = "decoded_as ''0x38ed1739'' (snd (SELECTOR_DB_entries ! 3))
          []"
  let ?d5 = "decoded_as ''0x7ff36ab5'' (snd (SELECTOR_DB_entries ! 4))
          []"
  let ?d6 = "decoded_as ''0xa694fc3a'' (snd (SELECTOR_DB_entries ! 6))
          []"
  let ?d7 = "decoded_as ''0x2e1a7d4d'' (snd (SELECTOR_DB_entries ! 7))
          []"
  let ?d8 = "decoded_as ''0x3d18b912'' (snd (SELECTOR_DB_entries ! 8))
          []"
  have s1: "selector ?d1 = ''0xa9059cbb''"
    by (simp add: decoded_as_def)
  have p1: "params_of (parameters ?d1) ''to'' = Some ''0xparamto''"
    by (simp add: decoded_as_def params_of_def)
  from actor_address_resolution [of ?d1 0 ctx_both] s1 p1
  have r1: "\<exists>coins ex meta. translate 0 ?d1 ctx_both
        = Inr (Success [MsgSend (Some ''inj1ctxsender'') (Some ''inj1ctxrecipient'') coins] ex meta)"
    by (simp add: ctx_both_def)
  have s2: "selector ?d2 = ''0x095ea7b3'' \<and> \<bar>0 + 31536000000\<bar> \<le> (8640000000000000 :: int)"
    by (simp add: decoded_as_def)
  have p2: "params_of (parameters ?d2) ''spender'' = Some ''0xparamspender''"
    by (simp add: decoded_as_def params_of_def)
  from actor_address_resolution [of ?d2 0 empty_context] s2 p2
  have r2: "\<exists>coins expiration ex meta. translate 0 ?d2 empty_context
        = Inr (Success [MsgGrant (Some ''inj1xxx'') (Some ''0xparamspender'') coins expiration]
                 ex meta)"
    by (simp add: empty_context_def)
  have s3: "selector ?d3 = ''0x23b872dd''"
    by (simp add: decoded_as_def)
  have p3: "params_of (parameters ?d3) ''from'' = None"
    by (simp add: decoded_as_def params_of_def)
  from actor_address_resolution [of ?d3 0 ctx_both] s3 p3
  have r3: "\<exists>to coins ex meta. translate 0 ?d3 ctx_both
        = Inr (Success [MsgSend (Some ''inj1ctxsender'') to coins] ex meta)"
    by (simp add: ctx_both_def)
  have s4: "selector ?d4 = ''0x38ed1739''"
    by (simp add: decoded_as_def)
  from actor_address_resolution [of ?d4 0 ctx_both] s4
  have r4: "\<exists>market quantity ex meta. translate 0 ?d4 ctx_both
        = Inr (Success [MsgSpotOrder ''inj1ctxsender'' market (getSubaccountId ''inj1ctxsender'')
                          ''inj1ctxsender'' ''0'' quantity 1 ''0''] ex meta)"
    by (simp add: ctx_both_def)
  have s5: "selector ?d5 = ''0x7ff36ab5''"
    by (simp add: decoded_as_def)
  from actor_address_resolution [of ?d5 0 empty_context] s5
  have r5: "\<exists>deposit market quantity ex meta. translate 0 ?d5 empty_context
        = Inr (Success [MsgDeposit ''inj1xxx'' (getSubaccountId ''inj1xxx'') deposit,
                        MsgSpotOrder ''inj1xxx'' market (getSubaccountId ''inj1xxx'')
                          ''inj1xxx'' ''0'' quantity 2 ''0''] ex meta)"
    by (simp add: empty_context_def)
  have s6: "selector ?d6 = ''0xa694fc3a''"
    by (simp add: decoded_as_def)
  from actor_address_resolution [of ?d6 0 ctx_both] s6
  have r6: "\<exists>amt ex meta. translate 0 ?d6 ctx_both
        = Inr (Success [MsgDelegate (Some ''inj1ctxsender'') ''injvaloper1ctx'' amt] ex meta)"
    by (simp add: ctx_both_def)
  have s7: "selector ?d7 = ''0x2e1a7d4d''"
    by (simp add: decoded_as_def)
  from actor_address_resolution [of ?d7 0 empty_context] s7
  have r7: "\<exists>amt ex meta. translate 0 ?d7 empty_context
        = Inr (Success [MsgUndelegate (Some ''inj1xxx'') ''injvaloper1xxx'' amt] ex meta)"
    by (simp add: empty_context_def)
  have s8: "selector ?d8 = ''0x3d18b912''"
    by (simp add: decoded_as_def)
  from actor_address_resolution [of ?d8 0 ctx_both] s8
  have r8: "\<exists>ex meta. translate 0 ?d8 ctx_both
        = Inr (Success [MsgWithdrawReward (Some ''inj1ctxsender'') ''injvaloper1ctx''] ex meta)"
    by (simp add: ctx_both_def)
  from s1 r1 s2 r2 s3 r3 s4 r4 s5 r5 s6 r6 s7 r7 s8 r8 show ?thesis by blast
qed

text \<open>
  Claim C6 as stated fails: with sender and recipient present in the context and the
  parameters \<^verbatim>\<open>from\<close> and \<^verbatim>\<open>to\<close> decoded, \<^verbatim>\<open>transferFrom\<close> builds its message from
  the decoded parameters.
\<close>

theorem transferFrom_priority_counterexample:
  "translate 0
     (decoded_as ''0x23b872dd'' (snd (SELECTOR_DB_entries ! 2))
        [\<lparr>p_name = ''from'', p_type = Some ''address'', p_value = ''0xparamfrom''\<rparr>,
         \<lparr>p_name = ''to'', p_type = Some ''address'', p_value = ''0xparamto''\<rparr>,
         \<lparr>p_name = ''amount'', p_type = Some ''uint256'', p_value = ''5''\<rparr>])
     ctx_both
   = Inr (Success
       [MsgSend (Some ''0xparamfrom'') (Some ''0xparamto'') [\<lparr>denom = ''inj'', amount = Some ''5''\<rparr>]]
       ''Transfer from authorized account''
       \<lparr>meta_confidence = 80 / 100, meta_matchType = ''SEMANTIC'',
        warnings = [''Requires authz grant check''],
        originalFunction = ''transferFrom(address,address,uint256)''\<rparr>)"
  by (simp add: translate_def decoded_as_def ctx_both_def SELECTOR_DB_def SELECTOR_DB_entries_def
      Let_def build_MsgSend_def params_of_def js_ops)

section \<open>Dependence on the clock\<close>

text \<open>
  Claim C7, at its failing input. The same \<^verbatim>\<open>approve\<close> intent, translated at two
  clock readings one second apart, is answered with two different responses: they
  differ in the \<^verbatim>\<open>expiration\<close> of the grant, which \<^verbatim>\<open>Builders.MsgGrant\<close> computes
  from \<^verbatim>\<open>Date.now()\<close>.
\<close>

theorem approve_translation_reads_clock:
  "translate_route failing_abi 0 (Some approve_intent) empty_context
     = \<lparr>status_code = 200,
        body = TranslationBody
          [MsgGrant (Some ''inj1xxx'') (Some ''inj1spender'')
             [\<lparr>denom = ''inj'', amount = Some ''5''\<rparr>] ''1971-01-01T00:00:00.000Z'']
          ''Grant spending authorization''
          \<lparr>meta_confidence = 85 / 100, meta_matchType = ''SEMANTIC'',
           warnings = [''Injective uses authz module instead of per-token approvals''],
           originalFunction = ''approve(address,uint256)''\<rparr>
          gasEstimate\<rparr>
   \<and> translate_route failing_abi 1000 (Some approve_intent) empty_context
     = \<lparr>status_code = 200,
        body = TranslationBody
          [MsgGrant (Some ''inj1xxx'') (Some ''inj1spender'')
             [\<lparr>denom = ''inj'', amount = Some ''5''\<rparr>] ''1971-01-01T00:00:01.000Z'']
          ''Grant spending authorization''
          \<lparr>meta_confidence = 85 / 100, meta_matchType = ''SEMANTIC'',
           warnings = [''Injective uses authz module instead of per-token approvals''],
           originalFunction = ''approve(address,uint256)''\<rparr>
          gasEstimate\<rparr>
   \<and> translate_route failing_abi 0 (Some approve_intent) empty_context
     \<noteq> translate_route failing_abi 1000 (Some approve_intent) empty_context"
  by (simp add: translate_route_def approve_intent_def empty_context_def intentMap_def show_js_def
      SELECTOR_DB_def SELECTOR_DB_entries_def
      intent_call_def translate_def respond_translation_def or_default_def or_else_def truthy_def
      params_of_def build_MsgGrant_def default_denom_def Let_def toISOString_1971 toISOString_1971_1s)

section \<open>Decoding calldata\<close>

lemma decode_bare:
  assumes "startsWith cd ''0x''" "length cd = 10" "SELECTOR_DB (toLowerCase cd) = Some fi"
  shows "decodeCalldata abi (Str cd) = Inr (decoded_as (toLowerCase cd) fi [])"
  using assms by (simp add: decodeCalldata_def decoded_as_def Let_def)

lemma translate_bare_supported:
  assumes "SELECTOR_DB sel = Some fi"
    and "matchType (injectiveMapping fi) \<noteq> ''UNSUPPORTED''"
    and "name fi = ''approve'' \<longrightarrow> \<bar>now + 31536000000\<bar> \<le> 8640000000000000"
  shows "\<exists>ms ex meta. translate now (decoded_as sel fi []) ctx = Inr (Success ms ex meta)
           \<and> ms \<noteq> []
           \<and> (name fi \<noteq> ''swapExactETHForTokens'' \<longrightarrow>
                (\<forall>m \<in> set ms. \<forall>a \<in> set (msg_amounts m). a = None))"
proof -
  have sel: "SELECTOR_DB (selector (decoded_as sel fi [])) = Some fi"
    using assms(1) by (simp add: decoded_as_def)
  have ps: "params_of (parameters (decoded_as sel fi [])) = Map.empty"
    by (simp add: decoded_as_def params_of_def)
  show ?thesis
  proof (cases "name fi = ''approve''")
    case True
    then obtain s where s: "toISOString (now + 31536000000) = Inr s"
      using toISOString_in_range assms(3) by blast
    show ?thesis
      using True assms(2) by (simp add: translate_def sel ps s Let_def build_MsgGrant_def)
  next
    case False
    show ?thesis
      using SELECTOR_DB_cases [OF assms(1)] assms(2) False unfolding SELECTOR_DB_entries_def
      by (elim disjE | simp add: translate_def sel ps Let_def build_MsgSend_def
            build_MsgSpotOrder_def build_MsgDeposit_def build_MsgDelegate_def build_MsgUndelegate_def
            build_MsgWithdrawReward_def)+
  qed
qed

lemma translate_bare_unsupported:
  assumes "SELECTOR_DB sel = Some fi" and "matchType (injectiveMapping fi) = ''UNSUPPORTED''"
  shows "translate now (decoded_as sel fi []) ctx
           = Inr (Failure ''UNSUPPORTED_PATTERN'' (mapping_notes (injectiveMapping fi)))"
  using assms by (simp add: translate_def decoded_as_def Let_def)

lemma approve_supported:
  assumes "SELECTOR_DB k = Some fi" "name fi = ''approve''"
  shows "matchType (injectiveMapping fi) \<noteq> ''UNSUPPORTED''"
  using SELECTOR_DB_cases [OF assms(1)] assms(2) unfolding SELECTOR_DB_entries_def
  by (elim disjE | simp)+

lemma translate_bare_approve_late:
  assumes "SELECTOR_DB sel = Some fi" and "name fi = ''approve''"
    and "8640000000000000 < \<bar>now + 31536000000\<bar>"
  shows "translate now (decoded_as sel fi []) ctx = Inl ''Invalid time value''"
  using assms approve_supported [OF assms(1,2)] toISOString_out_of_range [OF assms(3)]
  by (simp add: translate_def decoded_as_def Let_def build_MsgGrant_def)

text \<open>
  Claim C10, as amended. Calldata that is exactly a registered selector (ten
  characters, in any letter case) decodes successfully to an empty parameter list,
  whatever the parameter types of the entry and without the ABI decoder being
  consulted. What the translation of that call does depends on the entry: for the
  entries whose mapping is \<^verbatim>\<open>UNSUPPORTED\<close> it fails with \<^verbatim>\<open>UNSUPPORTED_PATTERN\<close> and
  builds no message; for the others it succeeds with at least one message, and for every
  function but \<^verbatim>\<open>swapExactETHForTokens\<close>, whose amounts come from the context, every
  amount field of every message is absent; for \<^verbatim>\<open>approve\<close> this needs a clock whose
  date one year later is valid, otherwise the builder throws.
\<close>

theorem decode_bare_selector:
  assumes "startsWith cd ''0x''" and "length cd = 10"
    and "SELECTOR_DB (toLowerCase cd) = Some fi"
  shows "decodeCalldata abi (Str cd) = Inr (decoded_as (toLowerCase cd) fi [])
       \<and> parameters (decoded_as (toLowerCase cd) fi []) = Some []
       \<and> decoded (decoded_as (toLowerCase cd) fi [])
       \<and> (matchType (injectiveMapping fi) = ''UNSUPPORTED'' \<longrightarrow>
            translate now (decoded_as (toLowerCase cd) fi []) ctx
              = Inr (Failure ''UNSUPPORTED_PATTERN'' (mapping_notes (injectiveMapping fi))))
       \<and> (matchType (injectiveMapping fi) \<noteq> ''UNSUPPORTED''
            \<and> (name fi = ''approve'' \<longrightarrow> \<bar>now + 31536000000\<bar> \<le> 8640000000000000) \<longrightarrow>
            (\<exists>ms ex meta.
               translate now (decoded_as (toLowerCase cd) fi []) ctx = Inr (Success ms ex meta)
               \<and> ms \<noteq> []
               \<and> (name fi \<noteq> ''swapExactETHForTokens'' \<longrightarrow>
                    (\<forall>m \<in> set ms. \<forall>a \<in> set (msg_amounts m). a = None))))
       \<and> (name fi = ''approve'' \<and> 8640000000000000 < \<bar>now + 31536000000\<bar> \<longrightarrow>
            translate now (decoded_as (toLowerCase cd) fi []) ctx = Inl ''Invalid time value'')"
  using decode_bare [OF assms] translate_bare_supported [OF assms(3)]
    translate_bare_unsupported [OF assms(3)] translate_bare_approve_late [OF assms(3)]
  by (simp add: decoded_as_def)

theorem decode_bare_selector_witness:
  "startsWith ''0xA9059CBB'' ''0x'' \<and> length ''0xA9059CBB'' = 10
   \<and> SELECTOR_DB (toLowerCase ''0xA9059CBB'') = Some (snd (SELECTOR_DB_entries ! 0))
   \<and> matchType (injectiveMapping (snd (SELECTOR_DB_entries ! 0))) \<noteq> ''UNSUPPORTED''
   \<and> name (snd (SELECTOR_DB_entries ! 0)) \<noteq> ''approve''
   \<and> paramTypes (snd (SELECTOR_DB_entries ! 0)) = [''address'', ''uint256'']
   \<and> decodeCalldata failing_abi (Str ''0xA9059CBB'')
       = Inr (decoded_as ''0xa9059cbb'' (snd (SELECTOR_DB_entries ! 0)) [])
   \<and> (\<exists>ms ex meta.
         translate 0 (decoded_as ''0xa9059cbb'' (snd (SELECTOR_DB_entries ! 0)) []) empty_context
           = Inr (Success ms ex meta)
         \<and> ms \<noteq> [] \<and> (\<forall>m \<in> set ms. \<forall>a \<in> set (msg_amounts m). a = None))
   \<and> startsWith ''0xe8e33700'' ''0x'' \<and> length ''0xe8e33700'' = 10
   \<and> SELECTOR_DB (toLowerCase ''0xe8e33700'') = Some (snd (SELECTOR_DB_entries ! 5))
   \<and> matchType (injectiveMapping (snd (SELECTOR_DB_entries ! 5))) = ''UNSUPPORTED''
   \<and> translate 0 (decoded_as ''0xe8e33700'' (snd (SELECTOR_DB_entries ! 5)) []) empty_context
       = Inr (Failure ''UNSUPPORTED_PATTERN''
               (mapping_notes (injectiveMapping (snd (SELECTOR_DB_entries ! 5)))))
   \<and> startsWith ''0x095ea7b3'' ''0x'' \<and> length ''0x095ea7b3'' = 10
   \<and> SELECTOR_DB (toLowerCase ''0x095ea7b3'') = Some (snd (SELECTOR_DB_entries ! 1))
   \<and> name (snd (SELECTOR_DB_entries ! 1)) = ''approve''
   \<and> 8640000000000000 < \<bar>8640000000000000 + 31536000000 :: int\<bar>
   \<and> translate 8640000000000000
         (decoded_as ''0x095ea7b3'' (snd (SELECTOR_DB_entries ! 1)) []) empty_context
       = Inl ''Invalid time value''"
proof -
  let ?e0 = "snd (SELECTOR_DB_entries ! 0)"
  let ?e1 = "snd (SELECTOR_DB_entries ! 1)"
  let ?e5 = "snd (SELECTOR_DB_entries ! 5)"
  have l0: "toLowerCase ''0xA9059CBB'' = ''0xa9059cbb''"
    by (simp add: toLowerCase_def lower_char_def)
  have l1: "toLowerCase ''0x095ea7b3'' = ''0x095ea7b3''"
    by (simp add: toLowerCase_def lower_char_def)
  have l5: "toLowerCase ''0xe8e33700'' = ''0xe8e33700''"
    by (simp add: toLowerCase_def lower_char_def)
  have a0: "startsWith ''0xA9059CBB'' ''0x''" and b0: "length ''0xA9059CBB'' = 10" by simp_all
  have a1: "startsWith ''0x095ea7b3'' ''0x''" and b1: "length ''0x095ea7b3'' = 10" by simp_all
  have a5: "startsWith ''0xe8e33700'' ''0x''" and b5: "length ''0xe8e33700'' = 10" by simp_all
  have c0: "SELECTOR_DB (toLowerCase ''0xA9059CBB'') = Some ?e0"
    unfolding l0 by (rule lookup_transfer)
  have c1: "SELECTOR_DB (toLowerCase ''0x095ea7b3'') = Some ?e1"
    unfolding l1 by (rule lookup_approve)
  have c5: "SELECTOR_DB (toLowerCase ''0xe8e33700'') = Some ?e5"
    unfolding l5 by (rule lookup_addLiquidity)
  have m0: "matchType (injectiveMapping ?e0) \<noteq> ''UNSUPPORTED'' \<and> name ?e0 \<noteq> ''approve''
      \<and> name ?e0 \<noteq> ''swapExactETHForTokens'' \<and> paramTypes ?e0 = [''address'', ''uint256'']"
    by (simp add: SELECTOR_DB_entries_def)
  have m1: "name ?e1 = ''approve''
      \<and> 8640000000000000 < \<bar>8640000000000000 + 31536000000 :: int\<bar>"
    by (simp add: SELECTOR_DB_entries_def)
  have m5: "matchType (injectiveMapping ?e5) = ''UNSUPPORTED''"
    by (simp add: SELECTOR_DB_entries_def)
  note t0 = decode_bare_selector [OF a0 b0 c0, of failing_abi 0 empty_context, unfolded l0]
  note t1 = decode_bare_selector [OF a1 b1 c1, of failing_abi 8640000000000000 empty_context,
      unfolded l1]
  note t5 = decode_bare_selector [OF a5 b5 c5, of failing_abi 0 empty_context, unfolded l5]
  from t0 have d0: "decodeCalldata failing_abi (Str ''0xA9059CBB'')
       = Inr (decoded_as ''0xa9059cbb'' ?e0 [])"
    by blast
  from t0 m0 have r0: "\<exists>ms ex meta.
         translate 0 (decoded_as ''0xa9059cbb'' ?e0 []) empty_context = Inr (Success ms ex meta)
         \<and> ms \<noteq> [] \<and> (\<forall>m \<in> set ms. \<forall>a \<in> set (msg_amounts m). a = None)"
    by simp
  from t5 m5 have r5: "translate 0 (decoded_as ''0xe8e33700'' ?e5 []) empty_context
       = Inr (Failure ''UNSUPPORTED_PATTERN'' (mapping_notes (injectiveMapping ?e5)))"
    by blast
  from t1 m1 have r1: "translate 8640000000000000 (decoded_as ''0x095ea7b3'' ?e1 []) empty_context
       = Inl ''Invalid time value''"
    by blast
  from a0 b0 c0 m0 d0 r0 a5 b5 c5 m5 r5 a1 b1 c1 m1 r1 show ?thesis by blast
qed

text \<open>
  Claim C10 as stated fails: the bare selector of \<^verbatim>\<open>addLiquidity\<close>, a registered entry
  with eight parameter types, decodes successfully with no parameters, and the
  translation that follows builds no message: it fails with \<^verbatim>\<open>UNSUPPORTED_PATTERN\<close>,
  which the route answers with status 422.
\<close>

theorem bare_unsupported_selector_counterexample:
  "decodeCalldata failing_abi (Str ''0xe8e33700'')
     = Inr (decoded_as ''0xe8e33700'' (snd (SELECTOR_DB_entries ! 5)) [])
   \<and> paramTypes (snd (SELECTOR_DB_entries ! 5))
     = [''address'', ''address'', ''uint256'', ''uint256'', ''uint256'', ''uint256'', ''address'',
        ''uint256'']
   \<and> translate 0 (decoded_as ''0xe8e33700'' (snd (SELECTOR_DB_entries ! 5)) []) empty_context
     = Inr (Failure ''UNSUPPORTED_PATTERN''
             (Some ''Injective uses orderbook, not AMM. Consider market making.''))
   \<and> translate_route failing_abi 0 (Some (calldata_input (Str ''0xe8e33700''))) empty_context
     = \<lparr>status_code = 422,
        body = ErrorBody ''UNSUPPORTED_PATTERN''
                 (Some ''Injective uses orderbook, not AMM. Consider market making.'')\<rparr>"
  by (simp add: decodeCalldata_def decoded_as_def toLowerCase_def lower_char_def translate_def
      translate_route_def calldata_input_def respond_translation_def SELECTOR_DB_def
      SELECTOR_DB_entries_def Let_def)

section \<open>Error reporting of the decoder\<close>

lemma decode_missing:
  "decodeCalldata abi Undefined = Inl ''Invalid calldata''"
  "decodeCalldata abi Other = Inl ''calldata?.startsWith is not a function''"
  "translate_route abi now (Some (calldata_input Undefined)) ctx
     = \<lparr>status_code = 500, body = ErrorBody ''ERROR'' (Some ''Invalid calldata'')\<rparr>"
  "translate_route abi now (Some (calldata_input Other)) ctx
     = \<lparr>status_code = 500,
        body = ErrorBody ''ERROR'' (Some ''calldata?.startsWith is not a function'')\<rparr>"
  by (simp_all add: decodeCalldata_def translate_route_def calldata_input_def)

lemma decode_malformed:
  assumes "\<not> startsWith cd ''0x'' \<or> length cd < 10"
  shows "decodeCalldata abi (Str cd) = Inl ''Invalid calldata''"
    and "translate_route abi now (Some (calldata_input (Str cd))) ctx
           = \<lparr>status_code = 500, body = ErrorBody ''ERROR'' (Some ''Invalid calldata'')\<rparr>"
  using assms by (auto simp add: decodeCalldata_def translate_route_def calldata_input_def)

lemma decode_returns:
  assumes "startsWith cd ''0x'' \<and> 10 \<le> length cd"
  shows "\<exists>dc. decodeCalldata abi (Str cd) = Inr dc"
  using assms by (auto simp add: decodeCalldata_def Let_def split: option.splits sum.splits)

lemma decode_unknown:
  assumes "startsWith cd ''0x''" "10 \<le> length cd" "SELECTOR_DB (toLowerCase (take 10 cd)) = None"
  shows "decodeCalldata abi (Str cd) = Inr (unknown_call (toLowerCase (take 10 cd)))"
    and "translate_route abi now (Some (calldata_input (Str cd))) ctx
           = \<lparr>status_code = 400, body = ErrorBody ''DECODE_FAILED'' (Some ''Unknown selector'')\<rparr>"
  using assms
  by (simp_all add: decodeCalldata_def translate_route_def calldata_input_def unknown_call_def Let_def)

lemma decode_failure:
  assumes "startsWith cd ''0x''" "10 < length cd"
    and "SELECTOR_DB (toLowerCase (take 10 cd)) = Some fi" "paramTypes fi \<noteq> []"
    and "abi (paramTypes fi) (''0x'' @ drop 10 cd) = Inl e"
  shows "decodeCalldata abi (Str cd) = Inr (failed_call (toLowerCase (take 10 cd)) fi e)"
    and "translate_route abi now (Some (calldata_input (Str cd))) ctx
           = \<lparr>status_code = 400, body = ErrorBody ''DECODE_FAILED'' (Some e)\<rparr>"
  using assms
  by (simp_all add: decodeCalldata_def translate_route_def calldata_input_def failed_call_def Let_def)

text \<open>
  Claim C4, as amended. \<^verbatim>\<open>decodeCalldata\<close> throws exactly when the calldata is
  missing, is not a string, does not start with \<^verbatim>\<open>0x\<close> or is shorter than ten code
  units, and the route answers 500 with the code \<^verbatim>\<open>ERROR\<close>. Well-formed calldata
  whose selector has no registry entry is returned, not thrown, as a call that is not
  decoded and carries the error text \<^verbatim>\<open>Unknown selector\<close>; the route answers it with
  400 and the code \<^verbatim>\<open>DECODE_FAILED\<close>, the same code with which it answers a failure of
  the ABI decoder on the parameters of a registered function.
\<close>

theorem decode_error_reporting:
  "decodeCalldata abi Undefined = Inl ''Invalid calldata''
 \<and> decodeCalldata abi Other = Inl ''calldata?.startsWith is not a function''
 \<and> translate_route abi now (Some (calldata_input Other)) ctx
      = \<lparr>status_code = 500,
         body = ErrorBody ''ERROR'' (Some ''calldata?.startsWith is not a function'')\<rparr>
 \<and> (\<not> startsWith cd ''0x'' \<or> length cd < 10 \<longrightarrow>
      decodeCalldata abi (Str cd) = Inl ''Invalid calldata''
      \<and> translate_route abi now (Some (calldata_input (Str cd))) ctx
           = \<lparr>status_code = 500, body = ErrorBody ''ERROR'' (Some ''Invalid calldata'')\<rparr>)
 \<and> (startsWith cd ''0x'' \<and> 10 \<le> length cd \<longrightarrow> (\<exists>dc. decodeCalldata abi (Str cd) = Inr dc))
 \<and> (startsWith cd ''0x'' \<and> 10 \<le> length cd \<and> SELECTOR_DB (toLowerCase (take 10 cd)) = None \<longrightarrow>
      decodeCalldata abi (Str cd) = Inr (unknown_call (toLowerCase (take 10 cd)))
      \<and> translate_route abi now (Some (calldata_input (Str cd))) ctx
           = \<lparr>status_code = 400, body = ErrorBody ''DECODE_FAILED'' (Some ''Unknown selector'')\<rparr>)
 \<and> (startsWith cd ''0x'' \<and> 10 < length cd \<and> SELECTOR_DB (toLowerCase (take 10 cd)) = Some fi
      \<and> paramTypes fi \<noteq> [] \<and> abi (paramTypes fi) (''0x'' @ drop 10 cd) = Inl e \<longrightarrow>
      decodeCalldata abi (Str cd) = Inr (failed_call (toLowerCase (take 10 cd)) fi e)
      \<and> translate_route abi now (Some (calldata_input (Str cd))) ctx
           = \<lparr>status_code = 400, body = ErrorBody ''DECODE_FAILED'' (Some e)\<rparr>)"
  by (intro conjI impI)
     (simp_all add: decode_missing decode_malformed decode_returns decode_unknown decode_failure)

theorem decode_error_reporting_witness:
  "\<not> (startsWith ''0x1234'' ''0x'' \<and> \<not> length ''0x1234'' < 10)
   \<and> decodeCalldata failing_abi (Str ''0x1234'') = Inl ''Invalid calldata''
   \<and> \<not> (startsWith [CHR ''0'', CHR ''x'', CHR 0xE9, CHR 0xE9, CHR 0xE9, CHR 0xE9] ''0x''
          \<and> \<not> length [CHR ''0'', CHR ''x'', CHR 0xE9, CHR 0xE9, CHR 0xE9, CHR 0xE9] < 10)
   \<and> translate_route failing_abi 0
        (Some (calldata_input (Str [CHR ''0'', CHR ''x'', CHR 0xE9, CHR 0xE9, CHR 0xE9, CHR 0xE9])))
        empty_context
        = \<lparr>status_code = 500, body = ErrorBody ''ERROR'' (Some ''Invalid calldata'')\<rparr>
   \<and> startsWith ''0x12345678'' ''0x'' \<and> 10 \<le> length ''0x12345678''
   \<and> SELECTOR_DB (toLowerCase (take 10 ''0x12345678'')) = None
   \<and> decodeCalldata failing_abi (Str ''0x12345678'') = Inr (unknown_call ''0x12345678'')
   \<and> startsWith ''0xa9059cbb00'' ''0x'' \<and> 10 < length ''0xa9059cbb00''
   \<and> SELECTOR_DB (toLowerCase (take 10 ''0xa9059cbb00'')) = Some (snd (SELECTOR_DB_entries ! 0))
   \<and> paramTypes (snd (SELECTOR_DB_entries ! 0)) \<noteq> []
   \<and> failing_abi (paramTypes (snd (SELECTOR_DB_entries ! 0))) (''0x'' @ drop 10 ''0xa9059cbb00'')
        = Inl ''data out-of-bounds''
   \<and> translate_route failing_abi 0 (Some (calldata_input (Str ''0xa9059cbb00''))) empty_context
        = \<lparr>status_code = 400, body = ErrorBody ''DECODE_FAILED'' (Some ''data out-of-bounds'')\<rparr>"
proof -
  let ?u = "[CHR ''0'', CHR ''x'', CHR 0xE9, CHR 0xE9, CHR 0xE9, CHR 0xE9]"
  have l1: "toLowerCase (take 10 ''0x12345678'') = ''0x12345678''"
    by (simp add: toLowerCase_def lower_char_def)
  have l2: "toLowerCase (take 10 ''0xa9059cbb00'') = ''0xa9059cbb''"
    by (simp add: toLowerCase_def lower_char_def)
  have h1: "\<not> startsWith ''0x1234'' ''0x'' \<or> length ''0x1234'' < 10" by simp
  have h0: "\<not> startsWith ?u ''0x'' \<or> length ?u < 10" by simp
  have h2: "startsWith ''0x12345678'' ''0x'' \<and> 10 \<le> length ''0x12345678''
      \<and> SELECTOR_DB (toLowerCase (take 10 ''0x12345678'')) = None"
    unfolding l1 by (simp add: SELECTOR_DB_def SELECTOR_DB_entries_def)
  have h3: "startsWith ''0xa9059cbb00'' ''0x'' \<and> 10 < length ''0xa9059cbb00''
      \<and> SELECTOR_DB (toLowerCase (take 10 ''0xa9059cbb00'')) = Some (snd (SELECTOR_DB_entries ! 0))
      \<and> paramTypes (snd (SELECTOR_DB_entries ! 0)) \<noteq> []
      \<and> failing_abi (paramTypes (snd (SELECTOR_DB_entries ! 0))) (''0x'' @ drop 10 ''0xa9059cbb00'')
           = Inl ''data out-of-bounds''"
    unfolding l2 by (simp add: SELECTOR_DB_def SELECTOR_DB_entries_def failing_abi_def)
  from decode_error_reporting [of failing_abi 0 empty_context "''0x1234''"] h1
  have r1: "decodeCalldata failing_abi (Str ''0x1234'') = Inl ''Invalid calldata''" by blast
  from decode_error_reporting [of failing_abi 0 empty_context ?u] h0
  have r0: "translate_route failing_abi 0 (Some (calldata_input (Str ?u))) empty_context
        = \<lparr>status_code = 500, body = ErrorBody ''ERROR'' (Some ''Invalid calldata'')\<rparr>" by blast
  from decode_error_reporting [of failing_abi 0 empty_context "''0x12345678''"] h2
  have r2: "decodeCalldata failing_abi (Str ''0x12345678'') = Inr (unknown_call ''0x12345678'')"
    unfolding l1 by blast
  from decode_error_reporting [of failing_abi 0 empty_context "''0xa9059cbb00''"
      "snd (SELECTOR_DB_entries ! 0)" "''data out-of-bounds''"] h3
  have r3: "translate_route failing_abi 0 (Some (calldata_input (Str ''0xa9059cbb00''))) empty_context
        = \<lparr>status_code = 400, body = ErrorBody ''DECODE_FAILED'' (Some ''data out-of-bounds'')\<rparr>"
    by blast
  from h0 h1 h2 h3 r0 r1 r2 r3 show ?thesis by blast
qed

text \<open>
  Claim C4 as stated fails: for the well-formed calldata \<^verbatim>\<open>0x12345678\<close>, whose selector
  is not registered, the decoder returns a call flagged as not decoded with an error
  text, and the route answers with the error code \<^verbatim>\<open>DECODE_FAILED\<close> although no
  parameter was decoded.
\<close>

theorem unknown_selector_counterexample:
  "decodeCalldata failing_abi (Str ''0x12345678'')
     = Inr \<lparr>selector = ''0x12345678'', functionName = None, d_signature = None, d_category = None,
            parameters = None, decoded = False, error = Some ''Unknown selector''\<rparr>
   \<and> translate_route failing_abi 0 (Some (calldata_input (Str ''0x12345678''))) empty_context
     = \<lparr>status_code = 400, body = ErrorBody ''DECODE_FAILED'' (Some ''Unknown selector'')\<rparr>"
  by (simp add: decodeCalldata_def translate_route_def calldata_input_def toLowerCase_def
      lower_char_def SELECTOR_DB_def SELECTOR_DB_entries_def Let_def)

section \<open>Evaluation of the selector derivation\<close>

lemma upt_5: "[0..<5] = [0, 1, 2, 3, 4]"
  by code_simp

lemma upt_25:
  "[0..<25] = [0, 1, 2, 3, 4, 5, 6, 7, 8, 9, 10, 11, 12, 13, 14, 15, 16, 17, 18, 19, 20, 21, 22, 23, 24]"
  by code_simp

lemma theta_C_unfold:
  "theta_C
     [a0, a1, a2, a3, a4, a5, a6, a7, a8, a9, a10, a11, a12, a13, a14, a15, a16, a17, a18, a19,
      a20, a21, a22, a23, a24] =
   [xorl a0 (xorl a5 (xorl a10 (xorl a15 a20))), xorl a1 (xorl a6 (xorl a11 (xorl a16 a21))),
    xorl a2 (xorl a7 (xorl a12 (xorl a17 a22))), xorl a3 (xorl a8 (xorl a13 (xorl a18 a23))),
    xorl a4 (xorl a9 (xorl a14 (xorl a19 a24)))]"
  by (simp add: theta_C_def upt_5)

lemma theta_D_unfold:
  "theta_D [c0, c1, c2, c3, c4] =
   [xorl c4 (drop 63 c1 @ take 63 c1), xorl c0 (drop 63 c2 @ take 63 c2),
    xorl c1 (drop 63 c3 @ take 63 c3), xorl c2 (drop 63 c4 @ take 63 c4),
    xorl c3 (drop 63 c0 @ take 63 c0)]"
  by (simp add: theta_D_def upt_5 rotl_def)

lemma theta_apply_unfold:
  "theta_apply
     [a0, a1, a2, a3, a4, a5, a6, a7, a8, a9, a10, a11, a12, a13, a14, a15, a16, a17, a18, a19,
      a20, a21, a22, a23, a24] [d0, d1, d2, d3, d4] =
   [xorl a0 d0, xorl a1 d1, xorl a2 d2, xorl a3 d3, xorl a4 d4, xorl a5 d0, xorl a6 d1,
    xorl a7 d2, xorl a8 d3, xorl a9 d4, xorl a10 d0, xorl a11 d1, xorl a12 d2, xorl a13 d3,
    xorl a14 d4, xorl a15 d0, xorl a16 d1, xorl a17 d2, xorl a18 d3, xorl a19 d4, xorl a20 d0,
    xorl a21 d1, xorl a22 d2, xorl a23 d3, xorl a24 d4]"
  by (simp add: theta_apply_def upt_25)

lemma rho_pi_unfold:
  "rho_pi
     [a0, a1, a2, a3, a4, a5, a6, a7, a8, a9, a10, a11, a12, a13, a14, a15, a16, a17, a18, a19,
      a20, a21, a22, a23, a24] =
   [(drop 64 a0 @ take 64 a0), (drop 20 a6 @ take 20 a6), (drop 21 a12 @ take 21 a12),
    (drop 43 a18 @ take 43 a18), (drop 50 a24 @ take 50 a24), (drop 36 a3 @ take 36 a3),
    (drop 44 a9 @ take 44 a9), (drop 61 a10 @ take 61 a10), (drop 19 a16 @ take 19 a16),
    (drop 3 a22 @ take 3 a22), (drop 63 a1 @ take 63 a1), (drop 58 a7 @ take 58 a7),
    (drop 39 a13 @ take 39 a13), (drop 56 a19 @ take 56 a19), (drop 46 a20 @ take 46 a20),
    (drop 37 a4 @ take 37 a4), (drop 28 a5 @ take 28 a5), (drop 54 a11 @ take 54 a11),
    (drop 49 a17 @ take 49 a17), (drop 8 a23 @ take 8 a23), (drop 2 a2 @ take 2 a2),
    (drop 9 a8 @ take 9 a8), (drop 25 a14 @ take 25 a14), (drop 23 a15 @ take 23 a15),
    (drop 62 a21 @ take 62 a21)]"
  by (simp add: rho_pi_def pi_src_def ROT_def upt_25 rotl_def)

lemma chi_unfold:
  "chi
     [b0, b1, b2, b3, b4, b5, b6, b7, b8, b9, b10, b11, b12, b13, b14, b15, b16, b17, b18, b19,
      b20, b21, b22, b23, b24] =
   [xorl b0 (andnotl b1 b2), xorl b1 (andnotl b2 b3), xorl b2 (andnotl b3 b4),
    xorl b3 (andnotl b4 b0), xorl b4 (andnotl b0 b1), xorl b5 (andnotl b6 b7),
    xorl b6 (andnotl b7 b8), xorl b7 (andnotl b8 b9), xorl b8 (andnotl b9 b5),
    xorl b9 (andnotl b5 b6), xorl b10 (andnotl b11 b12), xorl b11 (andnotl b12 b13),
    xorl b12 (andnotl b13 b14), xorl b13 (andnotl b14 b10), xorl b14 (andnotl b10 b11),
    xorl b15 (andnotl b16 b17), xorl b16 (andnotl b17 b18), xorl b17 (andnotl b18 b19),
    xorl b18 (andnotl b19 b15), xorl b19 (andnotl b15 b16), xorl b20 (andnotl b21 b22),
    xorl b21 (andnotl b22 b23), xorl b22 (andnotl b23 b24), xorl b23 (andnotl b24 b20),
    xorl b24 (andnotl b20 b21)]"
  by (simp add: chi_def upt_25)

lemma iota_unfold: "iota rc (a # as) = xorl a rc # as"
  by (simp add: iota_def)

lemma drop_numeral_Cons: "drop (numeral v) (x # xs) = drop (pred_numeral v) xs"
  by (simp add: numeral_eq_Suc)

lemma take_numeral_Cons: "take (numeral v) (x # xs) = x # take (pred_numeral v) xs"
  by (simp add: numeral_eq_Suc)

lemma replicate_numeral: "replicate (numeral k) x = x # replicate (pred_numeral k) x"
  by (simp add: numeral_eq_Suc)

lemma chop_Nil: "chop n [] = []"
  by (simp add: chop.simps)

lemma chop_Cons:
  "chop (numeral k) (x # xs) =
     take (numeral k) (x # xs) # chop (numeral k) (drop (numeral k) (x # xs))"
  by (subst chop.simps) simp

lemmas sponge_eval =
  ethers_id_def utf8_def keccak256_bits_def pad101_def chop_Nil chop_Cons absorb_def keccak_f_def
  RC_def lane_of_hex_def hex_bits_def replicate_numeral

lemmas keccak_eval =
  keccak_round_def theta_def theta_C_unfold theta_D_unfold theta_apply_unfold
  rho_pi_unfold chi_unfold iota_unfold xorl.simps xorb.simps andnotl.simps andnotb.simps
  foldl_Cons foldl_Nil take_numeral_Cons drop_numeral_Cons pred_numeral_simps BitM.simps
  take_0 drop_0 append_Cons append_Nil take_Nil drop_Nil

lemma selector_transfer: "take 10 (ethers_id ''transfer(address,uint256)'') = ''0xa9059cbb''"
  apply (simp add: sponge_eval)
  apply (simp only: keccak_eval)
  apply simp
  done

lemma selector_approve: "take 10 (ethers_id ''approve(address,uint256)'') = ''0x095ea7b3''"
  apply (simp add: sponge_eval)
  apply (simp only: keccak_eval)
  apply simp
  done

lemma selector_transferFrom: "take 10 (ethers_id ''transferFrom(address,address,uint256)'') = ''0x23b872dd''"
  apply (simp add: sponge_eval)
  apply (simp only: keccak_eval)
  apply simp
  done

lemma selector_swapExactTokensForTokens: "take 10 (ethers_id ''swapExactTokensForTokens(uint256,uint256,address[],address,uint256)'') = ''0x38ed1739''"
  apply (simp add: sponge_eval)
  apply (simp only: keccak_eval)
  apply simp
  done

lemma selector_swapExactETHForTokens: "take 10 (ethers_id ''swapExactETHForTokens(uint256,address[],address,uint256)'') = ''0x7ff36ab5''"
  apply (simp add: sponge_eval)
  apply (simp only: keccak_eval)
  apply simp
  done

lemma selector_addLiquidity: "take 10 (ethers_id ''addLiquidity(address,address,uint256,uint256,uint256,uint256,address,uint256)'') = ''0xe8e33700''"
  apply (simp add: sponge_eval)
  apply (simp only: keccak_eval)
  apply simp
  done

lemma selector_stake: "take 10 (ethers_id ''stake(uint256)'') = ''0xa694fc3a''"
  apply (simp add: sponge_eval)
  apply (simp only: keccak_eval)
  apply simp
  done

lemma selector_withdraw: "take 10 (ethers_id ''withdraw(uint256)'') = ''0x2e1a7d4d''"
  apply (simp add: sponge_eval)
  apply (simp only: keccak_eval)
  apply simp
  done

lemma selector_getReward: "take 10 (ethers_id ''getReward()'') = ''0x3d18b912''"
  apply (simp add: sponge_eval)
  apply (simp only: keccak_eval)
  apply simp
  done

lemma selector_flashLoan: "take 10 (ethers_id ''flashLoan(address,address[],uint256[],uint256[],address,bytes,uint16)'') = ''0xab9c4b5d''"
  apply (simp add: sponge_eval)
  apply (simp only: keccak_eval)
  apply simp
  done

lemma selector_flashLoan_short: "take 10 (ethers_id ''flashLoan(address,uint256)'') = ''0x9d9e465c''"
  apply (simp add: sponge_eval)
  apply (simp only: keccak_eval)
  apply simp
  done

lemmas selector_eval =
  selector_transfer selector_approve selector_transferFrom selector_swapExactTokensForTokens
  selector_swapExactETHForTokens selector_addLiquidity selector_stake selector_withdraw
  selector_getReward selector_flashLoan

text \<open>
  Claim C8. For every entry of the registry, the selector derived from its signature
  string (the first ten characters of \<^verbatim>\<open>ethers.id\<close> of the signature, as the scorer
  and the estimator derive it) is the key under which the entry is stored, so looking
  the signature up finds the entry itself.
\<close>

theorem selector_roundtrip:
  assumes "SELECTOR_DB k = Some fi"
  shows "take 10 (ethers_id (signature fi)) = k \<and> lookup_pattern (signature fi) = Some fi"
  using SELECTOR_DB_cases [OF assms] assms unfolding SELECTOR_DB_entries_def
  by (elim disjE | simp add: selector_eval lookup_pattern_def selector_of_def)+

theorem selector_roundtrip_witness:
  "SELECTOR_DB ''0xa9059cbb'' = Some (snd (SELECTOR_DB_entries ! 0))
   \<and> signature (snd (SELECTOR_DB_entries ! 0)) = ''transfer(address,uint256)''
   \<and> take 10 (ethers_id ''transfer(address,uint256)'') = ''0xa9059cbb''"
proof -
  have h: "SELECTOR_DB ''0xa9059cbb'' = Some (snd (SELECTOR_DB_entries ! 0))"
    by (simp add: SELECTOR_DB_def SELECTOR_DB_entries_def)
  have s: "signature (snd (SELECTOR_DB_entries ! 0)) = ''transfer(address,uint256)''"
    by (simp add: SELECTOR_DB_entries_def)
  from selector_roundtrip [OF h] have "take 10 (ethers_id ''transfer(address,uint256)'') = ''0xa9059cbb''"
    unfolding s by blast
  with h s show ?thesis by blast
qed

lemma lookup_pattern_transfer:
  "lookup_pattern ''transfer(address,uint256)'' = Some (snd (SELECTOR_DB_entries ! 0))"
  by (simp add: lookup_pattern_def selector_of_def selector_transfer SELECTOR_DB_def
      SELECTOR_DB_entries_def)

lemma lookup_pattern_approve:
  "lookup_pattern ''approve(address,uint256)'' = Some (snd (SELECTOR_DB_entries ! 1))"
  by (simp add: lookup_pattern_def selector_of_def selector_approve SELECTOR_DB_def
      SELECTOR_DB_entries_def)


lemma lookup_pattern_flashLoan_short:
  "lookup_pattern ''flashLoan(address,uint256)'' = None"
  by (simp add: lookup_pattern_def selector_of_def selector_flashLoan_short SELECTOR_DB_def
      SELECTOR_DB_entries_def)

lemma classify_transfer:
  "classify_pattern ''transfer(address,uint256)''
     = \<lparr>pattern = ''transfer(address,uint256)'', status = ''SUPPORTED'',
        injectiveEquivalent = Some ''/cosmos.bank.v1beta1.MsgSend'',
        result_confidence = Some (98 / 100), result_notes = None\<rparr>"
  by (simp add: classify_pattern_def lookup_pattern_transfer SELECTOR_DB_entries_def)

lemma classify_approve:
  "classify_pattern ''approve(address,uint256)''
     = \<lparr>pattern = ''approve(address,uint256)'', status = ''PARTIAL'',
        injectiveEquivalent = Some ''/cosmos.authz.v1beta1.MsgGrant'',
        result_confidence = Some (85 / 100),
        result_notes = Some ''Injective uses authz module instead of per-token approvals''\<rparr>"
  by (simp add: classify_pattern_def lookup_pattern_approve SELECTOR_DB_entries_def)

lemma classify_flashLoan_short:
  "classify_pattern ''flashLoan(address,uint256)''
     = \<lparr>pattern = ''flashLoan(address,uint256)'', status = ''UNSUPPORTED'',
        injectiveEquivalent = None, result_confidence = None,
        result_notes = Some ''Flash loans not supported''\<rparr>"
  by (simp add: classify_pattern_def lookup_pattern_flashLoan_short toLowerCase_def lower_char_def)

section \<open>The compatibility score\<close>

lemma floor_numeral_quotient:
  "\<lfloor>(numeral a :: rat) / numeral b\<rfloor> = numeral a div numeral b"
  using floor_divide_of_int_eq [of "numeral a" "numeral b", where ?'a = rat] by simp

lemma floor_one_quotient: "\<lfloor>(1 :: rat) / numeral b\<rfloor> = 1 div numeral b"
  using floor_divide_of_int_eq [of 1 "numeral b", where ?'a = rat] by simp

lemmas double_eval =
  percentage_def fadd_def fmul_def fdiv_def js_round_def round_double_def round_half_even_def
  floor_log2_def pow2_def bit_length.simps floor_numeral_quotient floor_one_quotient Let_def

lemma percentage_1_1_3_num: "percentage 1 1 3 = 50"
  by (simp add: double_eval)

lemma percentage_1_1_3: "percentage (Suc 0) (Suc 0) (Suc (Suc (Suc 0))) = 50"
  using percentage_1_1_3_num by (simp add: numeral_3_eq_3)



lemma fdiv_3_2: "fdiv 3 2 = 3 / 2"
  by (simp add: double_eval)

text \<open>
  Claim C2. For the patterns \<^verbatim>\<open>transfer(address,uint256)\<close>,
  \<^verbatim>\<open>approve(address,uint256)\<close> and \<^verbatim>\<open>flashLoan(address,uint256)\<close> the scorer answers
  with the verdicts \<^verbatim>\<open>SUPPORTED\<close>, \<^verbatim>\<open>PARTIAL\<close> and \<^verbatim>\<open>UNSUPPORTED\<close> (the last pattern has
  no registry entry and is classified by the keyword \<^verbatim>\<open>flash\<close>), the score 50 and the
  status \<^verbatim>\<open>PARTIALLY_COMPATIBLE\<close>.
\<close>

theorem compatibility_example:
  "compatibility
     [''transfer(address,uint256)'', ''approve(address,uint256)'', ''flashLoan(address,uint256)''] []
   = Inr \<lparr>score = 50, overall_status = ''PARTIALLY_COMPATIBLE'', summary = ''1/3 supported'',
          patterns =
            [\<lparr>pattern = ''transfer(address,uint256)'', status = ''SUPPORTED'',
              injectiveEquivalent = Some ''/cosmos.bank.v1beta1.MsgSend'',
              result_confidence = Some (98 / 100), result_notes = None\<rparr>,
             \<lparr>pattern = ''approve(address,uint256)'', status = ''PARTIAL'',
              injectiveEquivalent = Some ''/cosmos.authz.v1beta1.MsgGrant'',
              result_confidence = Some (85 / 100),
              result_notes = Some ''Injective uses authz module instead of per-token approvals''\<rparr>,
             \<lparr>pattern = ''flashLoan(address,uint256)'', status = ''UNSUPPORTED'',
              injectiveEquivalent = None, result_confidence = None,
              result_notes = Some ''Flash loans not supported''\<rparr>],
          recommendations =
            [''Some patterns need workarounds'', ''Unsupported patterns require redesign'']\<rparr>"
  by (simp add: compatibility_def classify_transfer classify_approve classify_flashLoan_short
      percentage_1_1_3 show_nat.simps digit_char_def Let_def)

section \<open>Classification by the migration estimator\<close>














end
